theory Spec2Isabelle
  imports Complex_Main
begin

section \<open>Values shared by the modules\<close>

text \<open>
  Python floats are read as real numbers: the model keeps the order of the arithmetic
  operations of the source, and writes out what pandas does where a real number has no
  answer (an unset cell, a division by zero). Exceptions are values of \<open>py_error\<close>;
  a function that can raise returns \<open>py_error + 'a\<close>, \<open>Inl\<close> carrying the exception.
  The message of a \<open>ValueError\<close> is kept where it is plain text and abridged where
  the source formats a list into it; the message of the \<open>TypeError\<close> of a class
  statement is Python's, without its quotation marks. A \<open>pd.Timestamp\<close> is a point of a linear order,
  here an integer.
\<close>

datatype py_error = ValueError string | KeyError string | IndexError | TypeError string

type_synonym timestamp = int

text \<open>
  A \<open>pd.DataFrame\<close> with a \<open>DatetimeIndex\<close>: the index and the columns in their order,
  each column a label with its values. pandas keeps one value per index entry in every
  column. All frames of the model carry a \<open>DatetimeIndex\<close> (what \<open>Backtester.__init__\<close>
  demands), with pairwise different timestamps and string labels.
\<close>

record frame =
  index :: "timestamp list"
  data :: "(string \<times> real list) list"

definition columns :: "frame \<Rightarrow> string list" where
  "columns df = map fst (data df)"

definition len :: "frame \<Rightarrow> nat" where
  "len df = length (index df)"

text \<open>\<open>df.iloc[i].get(label)\<close>: the cell of row \<open>i\<close> under the first column with that label.\<close>

definition series_get :: "frame \<Rightarrow> nat \<Rightarrow> string \<Rightarrow> real option" where
  "series_get df i label = map_option (\<lambda>vs. vs ! i) (map_of (data df) label)"

text \<open>\<open>df.iloc[i][label]\<close>: a missing label raises \<open>KeyError\<close>.\<close>

definition series_item :: "frame \<Rightarrow> nat \<Rightarrow> string \<Rightarrow> py_error + real" where
  "series_item df i label =
     (case series_get df i label of None \<Rightarrow> Inl (KeyError label) | Some v \<Rightarrow> Inr v)"

section \<open>core/smc\_concepts.py\<close>

subsection \<open>The class statements of the module\<close>

text \<open>
  Importing the module runs its statements in their order. Each of its five data classes
  is a class statement under \<open>@dataclass\<close>: the decorator goes through the fields in
  the order of the class body and raises \<open>TypeError\<close> at the first field without a
  default that follows a field with one. A field is its name and whether it has a default.
\<close>

fun dataclass_fields :: "(string \<times> bool) list \<Rightarrow> bool \<Rightarrow> py_error + unit" where
  "dataclass_fields [] seen_default = Inr ()"
| "dataclass_fields ((name, has_default) # fs) seen_default =
     (if has_default then dataclass_fields fs True
      else if seen_default
      then Inl (TypeError (''non-default argument '' @ name @ '' follows default argument''))
      else dataclass_fields fs seen_default)"

definition dataclass :: "(string \<times> bool) list \<Rightarrow> py_error + unit" where
  "dataclass fs = dataclass_fields fs False"

text \<open>The fields of the classes, lines 21-93, as the class bodies list them.\<close>

definition Candle_fields :: "(string \<times> bool) list" where
  "Candle_fields =
     [(''timestamp'', False), (''open'', False), (''high'', False), (''low'', False),
      (''close'', False), (''volume'', True)]"

definition MarketStructurePoint_fields :: "(string \<times> bool) list" where
  "MarketStructurePoint_fields =
     [(''timestamp'', False), (''price'', False), (''type'', False), (''wick_price'', True)]"

definition OrderBlock_fields :: "(string \<times> bool) list" where
  "OrderBlock_fields =
     [(''start_time'', False), (''end_time'', False), (''high'', False), (''low'', False),
      (''volume'', True), (''is_bullish'', False), (''mitigated_time'', True),
      (''mitigated_by_wick'', True)]"

definition FairValueGap_fields :: "(string \<times> bool) list" where
  "FairValueGap_fields =
     [(''start_time'', False), (''end_time'', False), (''high'', False), (''low'', False),
      (''is_bullish'', False), (''filled_time'', True), (''partially_filled_level'', True)]"

definition LiquidityPoint_fields :: "(string \<times> bool) list" where
  "LiquidityPoint_fields =
     [(''timestamp'', False), (''price'', False), (''is_high'', False), (''taken_time'', True)]"

text \<open>
  \<open>import core.smc_concepts\<close>: the class statements in the order of the file (the two
  enumerations before them raise nothing). The first that raises ends the import, and
  the functions below it are never defined.
\<close>

definition import_smc_concepts :: "py_error + unit" where
  "import_smc_concepts =
     (case dataclass Candle_fields of Inl e \<Rightarrow> Inl e | Inr u1 \<Rightarrow>
      (case dataclass MarketStructurePoint_fields of Inl e \<Rightarrow> Inl e | Inr u2 \<Rightarrow>
      (case dataclass OrderBlock_fields of Inl e \<Rightarrow> Inl e | Inr u3 \<Rightarrow>
      (case dataclass FairValueGap_fields of Inl e \<Rightarrow> Inl e | Inr u4 \<Rightarrow>
      (case dataclass LiquidityPoint_fields of Inl e \<Rightarrow> Inl e | Inr u5 \<Rightarrow> Inr ())))))"

subsection \<open>Instances\<close>

text \<open>
  An instance of \<open>OrderBlock\<close> and of \<open>FairValueGap\<close> as the bodies of the detectors
  build it by keyword: the fields in the order of the class body, those the call leaves
  out at their defaults. The bodies run only in a module whose import has returned.
\<close>

record OrderBlock =
  ob_start_time :: timestamp
  ob_end_time :: timestamp
  ob_high :: real
  ob_low :: real
  ob_volume :: "real option"
  ob_is_bullish :: bool
  ob_mitigated_time :: "timestamp option"
  ob_mitigated_by_wick :: bool

record FairValueGap =
  fvg_start_time :: timestamp
  fvg_end_time :: timestamp
  fvg_high :: real
  fvg_low :: real
  fvg_is_bullish :: bool
  fvg_filled_time :: "timestamp option"
  fvg_partially_filled_level :: "real option"

definition filled :: "FairValueGap \<Rightarrow> bool" where
  "filled g = (fvg_filled_time g \<noteq> None)"

subsection \<open>Column normalisation\<close>

text \<open>\<open>str.lower\<close> on ASCII labels.\<close>

definition lower_char :: "char \<Rightarrow> char" where
  "lower_char c =
     (case map_of (zip ''ABCDEFGHIJKLMNOPQRSTUVWXYZ'' ''abcdefghijklmnopqrstuvwxyz'') c of
        Some l \<Rightarrow> l
      | None \<Rightarrow> c)"

definition lower :: "string \<Rightarrow> string" where
  "lower s = map lower_char s"

text \<open>The \<open>rename_map\<close> loop of lines 126-134, applied to one label.\<close>

definition rename_label :: "string \<Rightarrow> string" where
  "rename_label col =
     (let col_lower = lower col in
      if col_lower = ''open'' then ''open''
      else if col_lower = ''high'' then ''high''
      else if col_lower = ''low'' then ''low''
      else if col_lower = ''close'' then ''close''
      else if col_lower = ''volume'' then ''volume''
      else col)"

definition rename_columns :: "frame \<Rightarrow> frame" where
  "rename_columns df = df\<lparr>data := map (\<lambda>(col, vs). (rename_label col, vs)) (data df)\<rparr>"

definition essential_cols :: "string list" where
  "essential_cols = [''open'', ''high'', ''low'', ''close'']"

text \<open>
  \<open>_ensure_datetime_index_and_columns\<close>. The frame has a \<open>DatetimeIndex\<close>, so the
  conversion of lines 104-122 is skipped (it swallows its own exceptions and touches no
  price column); the labels are standardised and the four price columns demanded.
\<close>

definition ensure_datetime_index_and_columns :: "frame \<Rightarrow> py_error + frame" where
  "ensure_datetime_index_and_columns ohlcv_data =
     (let df = rename_columns ohlcv_data in
      if \<not> list_all (\<lambda>col. col \<in> set (columns df)) essential_cols
      then Inl (ValueError ''Essential OHLC columns missing.'')
      else Inr df)"

subsection \<open>Rows as the detectors read them\<close>

text \<open>
  One row of the standardised frame with the labels the detectors read:
  \<open>row['open']\<close>, \<open>row['high']\<close>, \<open>row['low']\<close>, \<open>row['close']\<close> (each a \<open>KeyError\<close> when
  the label is absent) and \<open>row.get('volume')\<close>, with the index entry of the row.
\<close>

record candle =
  c_timestamp :: timestamp
  c_open :: real
  c_high :: real
  c_low :: real
  c_close :: real
  c_volume :: "real option"

definition iloc :: "frame \<Rightarrow> nat \<Rightarrow> py_error + candle" where
  "iloc df i =
     (case series_item df i ''open'' of Inl e \<Rightarrow> Inl e | Inr op \<Rightarrow>
      (case series_item df i ''high'' of Inl e \<Rightarrow> Inl e | Inr h \<Rightarrow>
      (case series_item df i ''low'' of Inl e \<Rightarrow> Inl e | Inr l \<Rightarrow>
      (case series_item df i ''close'' of Inl e \<Rightarrow> Inl e | Inr c \<Rightarrow>
         Inr \<lparr>c_timestamp = index df ! i, c_open = op, c_high = h, c_low = l, c_close = c,
              c_volume = series_get df i ''volume''\<rparr>))))"

subsection \<open>identify\_order\_blocks\<close>

definition bullish_ob :: "candle \<Rightarrow> OrderBlock" where
  "bullish_ob prev_candle =
     \<lparr>ob_start_time = c_timestamp prev_candle, ob_end_time = c_timestamp prev_candle,
      ob_high = c_high prev_candle, ob_low = c_low prev_candle,
      ob_volume = c_volume prev_candle, ob_is_bullish = True,
      ob_mitigated_time = None, ob_mitigated_by_wick = False\<rparr>"

definition bearish_ob :: "candle \<Rightarrow> OrderBlock" where
  "bearish_ob prev_candle =
     \<lparr>ob_start_time = c_timestamp prev_candle, ob_end_time = c_timestamp prev_candle,
      ob_high = c_high prev_candle, ob_low = c_low prev_candle,
      ob_volume = c_volume prev_candle, ob_is_bullish = False,
      ob_mitigated_time = None, ob_mitigated_by_wick = False\<rparr>"

text \<open>The blocks one pass of the loop body (lines 175-214) appends, in their order.\<close>

definition ob_body :: "real \<Rightarrow> candle \<Rightarrow> candle \<Rightarrow> OrderBlock list" where
  "ob_body strength_factor prev_candle curr_candle =
     (let is_prev_bearish = c_close prev_candle < c_open prev_candle;
          is_curr_bullish = c_close curr_candle > c_open curr_candle;
          prev_body = abs (c_open prev_candle - c_close prev_candle);
          curr_body = abs (c_open curr_candle - c_close curr_candle);
          is_prev_bullish = c_close prev_candle > c_open prev_candle;
          is_curr_bearish = c_close curr_candle < c_open curr_candle
      in (if is_prev_bearish \<and> is_curr_bullish \<and>
             c_close curr_candle > c_high prev_candle \<and>
             curr_body > prev_body * strength_factor
          then [bullish_ob prev_candle] else [])
       @ (if is_prev_bullish \<and> is_curr_bearish \<and>
             c_low curr_candle < c_low prev_candle \<and>
             curr_body > prev_body * strength_factor
          then [bearish_ob prev_candle] else []))"

text \<open>\<open>for i in range(1, len(df))\<close>, the list \<open>order_blocks\<close> threaded through.\<close>

fun ob_for :: "frame \<Rightarrow> real \<Rightarrow> nat list \<Rightarrow> OrderBlock list \<Rightarrow> py_error + OrderBlock list" where
  "ob_for df sf [] order_blocks = Inr order_blocks"
| "ob_for df sf (i # is) order_blocks =
     (case iloc df (i - 1) of Inl e \<Rightarrow> Inl e | Inr prev_candle \<Rightarrow>
      (case iloc df i of Inl e \<Rightarrow> Inl e | Inr curr_candle \<Rightarrow>
         ob_for df sf is (order_blocks @ ob_body sf prev_candle curr_candle)))"

text \<open>
  The body of \<open>identify_order_blocks\<close>, lines 163-216. The \<open>except ValueError\<close> of both
  detectors: the empty list is returned.
\<close>

definition identify_order_blocks_body :: "frame \<Rightarrow> real \<Rightarrow> py_error + OrderBlock list" where
  "identify_order_blocks_body ohlcv_data strength_factor =
     (case ensure_datetime_index_and_columns ohlcv_data of
        Inl (ValueError m) \<Rightarrow> Inr []
      | Inl e \<Rightarrow> Inl e
      | Inr df \<Rightarrow> ob_for df strength_factor [1..<len df] [])"

subsection \<open>identify\_fair\_value\_gaps\<close>

text \<open>The gap one pass of the loop body (lines 241-266) appends: \<open>if\<close>, \<open>elif\<close>, nothing.\<close>

definition fvg_body :: "candle \<Rightarrow> candle \<Rightarrow> FairValueGap list" where
  "fvg_body c0 c2 =
     (if c_low c0 > c_high c2
      then [\<lparr>fvg_start_time = c_timestamp c0, fvg_end_time = c_timestamp c2,
             fvg_high = c_low c0, fvg_low = c_high c2, fvg_is_bullish = True,
             fvg_filled_time = None, fvg_partially_filled_level = None\<rparr>]
      else if c_high c0 < c_low c2
      then [\<lparr>fvg_start_time = c_timestamp c0, fvg_end_time = c_timestamp c2,
             fvg_high = c_low c2, fvg_low = c_high c0, fvg_is_bullish = False,
             fvg_filled_time = None, fvg_partially_filled_level = None\<rparr>]
      else [])"

fun fvg_for :: "frame \<Rightarrow> nat list \<Rightarrow> FairValueGap list \<Rightarrow> py_error + FairValueGap list" where
  "fvg_for df [] fvgs = Inr fvgs"
| "fvg_for df (i # is) fvgs =
     (case iloc df i of Inl e \<Rightarrow> Inl e | Inr c0 \<Rightarrow>
      (case iloc df (i + 2) of Inl e \<Rightarrow> Inl e | Inr c2 \<Rightarrow>
         fvg_for df is (fvgs @ fvg_body c0 c2)))"

text \<open>The body of \<open>identify_fair_value_gaps\<close>, lines 226-267.\<close>

definition identify_fair_value_gaps_body :: "frame \<Rightarrow> py_error + FairValueGap list" where
  "identify_fair_value_gaps_body ohlcv_data =
     (case ensure_datetime_index_and_columns ohlcv_data of
        Inl (ValueError m) \<Rightarrow> Inr []
      | Inl e \<Rightarrow> Inl e
      | Inr df \<Rightarrow>
          if len df < 3 then Inr []
          else fvg_for df [0..<len df - 2] [])"

subsection \<open>The detectors as a caller reaches them\<close>

text \<open>
  A caller has a detector from the import of the module: when the import raises, the
  call raises the same error, whatever the frame; otherwise the body runs.
\<close>

definition identify_order_blocks :: "frame \<Rightarrow> real \<Rightarrow> py_error + OrderBlock list" where
  "identify_order_blocks ohlcv_data strength_factor =
     (case import_smc_concepts of
        Inl e \<Rightarrow> Inl e
      | Inr u \<Rightarrow> identify_order_blocks_body ohlcv_data strength_factor)"

definition identify_fair_value_gaps :: "frame \<Rightarrow> py_error + FairValueGap list" where
  "identify_fair_value_gaps ohlcv_data =
     (case import_smc_concepts of
        Inl e \<Rightarrow> Inl e
      | Inr u \<Rightarrow> identify_fair_value_gaps_body ohlcv_data)"

section \<open>strategies/example\_strategy\_1.py\<close>

text \<open>The locals of \<open>ExampleStrategy1.generate_signals\<close> that its loop changes.\<close>

record ob_locals =
  ob_signals :: "string list"
  active_bullish_ob :: "OrderBlock option"
  active_bearish_ob :: "OrderBlock option"
  ob_current_position :: string

text \<open>Lines 60-70, for one block of \<open>order_blocks\<close>.\<close>

definition select_ob ::
  "timestamp \<Rightarrow> OrderBlock option \<times> OrderBlock option \<Rightarrow> OrderBlock
     \<Rightarrow> OrderBlock option \<times> OrderBlock option" where
  "select_ob current_time act ob =
     (case act of (bull, bear) \<Rightarrow>
        if ob_start_time ob \<le> current_time
        then (if ob_is_bullish ob \<and>
                 (case bull of None \<Rightarrow> True
                  | Some a \<Rightarrow> ob_start_time ob > ob_start_time a)
              then (Some ob, bear)
              else if \<not> ob_is_bullish ob \<and>
                 (case bear of None \<Rightarrow> True
                  | Some a \<Rightarrow> ob_start_time ob > ob_start_time a)
              then (bull, Some ob)
              else (bull, bear))
        else (bull, bear))"

text \<open>
  The price tests of the loop, on the frame the caller passed (its labels as they are): a test
  reads its second label only when the first comparison holds, and a missing label raises
  \<open>KeyError\<close>.
\<close>

definition low_then_high :: "frame \<Rightarrow> nat \<Rightarrow> real \<Rightarrow> real \<Rightarrow> py_error + bool" where
  "low_then_high df i upper lower_bound =
     (case series_item df i ''low'' of Inl e \<Rightarrow> Inl e | Inr lo \<Rightarrow>
        if lo \<le> upper
        then (case series_item df i ''high'' of Inl e \<Rightarrow> Inl e
              | Inr hi \<Rightarrow> Inr (hi \<ge> lower_bound))
        else Inr False)"

definition high_then_low :: "frame \<Rightarrow> nat \<Rightarrow> real \<Rightarrow> real \<Rightarrow> py_error + bool" where
  "high_then_low df i lower_bound upper =
     (case series_item df i ''high'' of Inl e \<Rightarrow> Inl e | Inr hi \<Rightarrow>
        if hi \<ge> lower_bound
        then (case series_item df i ''low'' of Inl e \<Rightarrow> Inl e
              | Inr lo \<Rightarrow> Inr (lo \<le> upper))
        else Inr False)"

text \<open>
  The four guarded blocks of the loop body, lines 73-124. Each returns \<open>Some\<close> of the new
  locals when it fires (the \<open>continue\<close>) and \<open>None\<close> when control falls through.
\<close>

definition ob_enter_long :: "frame \<Rightarrow> nat \<Rightarrow> ob_locals \<Rightarrow> py_error + ob_locals option" where
  "ob_enter_long df i st =
     (if ob_current_position st = ''none'' \<or> ob_current_position st = ''short''
      then (case active_bullish_ob st of
              None \<Rightarrow> Inr None
            | Some ob \<Rightarrow>
                (case low_then_high df i (ob_high ob) (ob_low ob) of
                   Inl e \<Rightarrow> Inl e
                 | Inr True \<Rightarrow>
                     Inr (Some (st\<lparr>ob_signals := (ob_signals st)[i := ''buy''],
                                    ob_current_position := ''long'',
                                    active_bullish_ob := None,
                                    active_bearish_ob := None\<rparr>))
                 | Inr False \<Rightarrow> Inr None))
      else Inr None)"

definition ob_enter_short :: "frame \<Rightarrow> nat \<Rightarrow> ob_locals \<Rightarrow> py_error + ob_locals option" where
  "ob_enter_short df i st =
     (if ob_current_position st = ''none'' \<or> ob_current_position st = ''long''
      then (case active_bearish_ob st of
              None \<Rightarrow> Inr None
            | Some ob \<Rightarrow>
                (case high_then_low df i (ob_low ob) (ob_high ob) of
                   Inl e \<Rightarrow> Inl e
                 | Inr True \<Rightarrow>
                     Inr (Some (st\<lparr>ob_signals := (ob_signals st)[i := ''sell''],
                                    ob_current_position := ''short'',
                                    active_bearish_ob := None,
                                    active_bullish_ob := None\<rparr>))
                 | Inr False \<Rightarrow> Inr None))
      else Inr None)"

definition ob_exit_long :: "frame \<Rightarrow> nat \<Rightarrow> ob_locals \<Rightarrow> py_error + ob_locals option" where
  "ob_exit_long df i st =
     (if ob_current_position st = ''long''
      then (case active_bearish_ob st of
              None \<Rightarrow> Inr None
            | Some ob \<Rightarrow>
                (case series_item df i ''high'' of
                   Inl e \<Rightarrow> Inl e
                 | Inr hi \<Rightarrow>
                     if hi \<ge> ob_low ob
                     then Inr (Some (st\<lparr>ob_signals := (ob_signals st)[i := ''sell''],
                                         ob_current_position := ''none'',
                                         active_bearish_ob := None,
                                         active_bullish_ob := None\<rparr>))
                     else Inr None))
      else Inr None)"

definition ob_exit_short :: "frame \<Rightarrow> nat \<Rightarrow> ob_locals \<Rightarrow> py_error + ob_locals option" where
  "ob_exit_short df i st =
     (if ob_current_position st = ''short''
      then (case active_bullish_ob st of
              None \<Rightarrow> Inr None
            | Some ob \<Rightarrow>
                (case series_item df i ''low'' of
                   Inl e \<Rightarrow> Inl e
                 | Inr lo \<Rightarrow>
                     if lo \<le> ob_high ob
                     then Inr (Some (st\<lparr>ob_signals := (ob_signals st)[i := ''buy''],
                                         ob_current_position := ''none'',
                                         active_bullish_ob := None,
                                         active_bearish_ob := None\<rparr>))
                     else Inr None))
      else Inr None)"

text \<open>The blocks in the order of the source: the first that fires ends the pass.\<close>

fun first_firing ::
  "('s \<Rightarrow> py_error + 's option) list \<Rightarrow> 's \<Rightarrow> py_error + 's" where
  "first_firing [] st = Inr st"
| "first_firing (block # blocks) st =
     (case block st of
        Inl e \<Rightarrow> Inl e
      | Inr (Some st') \<Rightarrow> Inr st'
      | Inr None \<Rightarrow> first_firing blocks st)"

definition ob_pass :: "frame \<Rightarrow> OrderBlock list \<Rightarrow> nat \<Rightarrow> ob_locals \<Rightarrow> py_error + ob_locals" where
  "ob_pass df order_blocks i st =
     (let current_time = index df ! i;
          act = foldl (select_ob current_time)
                  (active_bullish_ob st, active_bearish_ob st) order_blocks;
          st1 = st\<lparr>active_bullish_ob := fst act, active_bearish_ob := snd act\<rparr>
      in first_firing
           [ob_enter_long df i, ob_enter_short df i, ob_exit_long df i, ob_exit_short df i]
           st1)"

fun ob_passes :: "frame \<Rightarrow> OrderBlock list \<Rightarrow> nat list \<Rightarrow> ob_locals \<Rightarrow> py_error + ob_locals" where
  "ob_passes df order_blocks [] st = Inr st"
| "ob_passes df order_blocks (i # is) st =
     (case ob_pass df order_blocks i st of
        Inl e \<Rightarrow> Inl e
      | Inr st' \<Rightarrow> ob_passes df order_blocks is st')"

text \<open>
  The body of \<open>ExampleStrategy1.generate_signals\<close>. Fewer than two bars: the list of holds is returned
  at once (lines 30-32). The detector is called with its default strength factor; the
  parameter \<open>proximity_factor\<close> of the class is read by nothing.
\<close>

definition ExampleStrategy1_generate_signals_body :: "frame \<Rightarrow> py_error + string list" where
  "ExampleStrategy1_generate_signals_body ohlcv =
     (let signals = replicate (len ohlcv) ''hold''
      in if len ohlcv < 2 then Inr signals
         else (case identify_order_blocks_body ohlcv (12 / 10) of
                 Inl e \<Rightarrow> Inl e
               | Inr order_blocks \<Rightarrow>
                   (case ob_passes ohlcv order_blocks [0..<len ohlcv]
                           \<lparr>ob_signals = signals, active_bullish_ob = None,
                            active_bearish_ob = None, ob_current_position = ''none''\<rparr> of
                      Inl e \<Rightarrow> Inl e
                    | Inr st \<Rightarrow> Inr (ob_signals st))))"



section \<open>strategies/example\_strategy\_2.py\<close>

text \<open>
  The locals of \<open>ExampleStrategy2.generate_signals\<close>. The gaps are objects that the loop
  marks as filled while \<open>fair_value_gaps\<close> and the two active references still point at
  them: the list is the store and a reference is a position in it.
\<close>

record fvg_locals =
  fvg_signals :: "string list"
  fair_value_gaps :: "FairValueGap list"
  active_bullish_fvg :: "nat option"
  active_bearish_fvg :: "nat option"
  fvg_current_position :: string

text \<open>Lines 182-188, for the gap at position \<open>k\<close>.\<close>

definition select_fvg ::
  "FairValueGap list \<Rightarrow> timestamp \<Rightarrow> nat option \<times> nat option \<Rightarrow> nat \<Rightarrow> nat option \<times> nat option" where
  "select_fvg gaps current_time act k =
     (case act of (bull, bear) \<Rightarrow>
        if fvg_end_time (gaps ! k) < current_time
        then (if fvg_is_bullish (gaps ! k) then (Some k, bear) else (bull, Some k))
        else (bull, bear))"

definition mark_filled :: "FairValueGap list \<Rightarrow> nat \<Rightarrow> timestamp \<Rightarrow> FairValueGap list" where
  "mark_filled gaps k current_time = gaps[k := (gaps ! k)\<lparr>fvg_filled_time := Some current_time\<rparr>]"

definition fvg_enter_long ::
  "real \<Rightarrow> frame \<Rightarrow> nat \<Rightarrow> fvg_locals \<Rightarrow> py_error + fvg_locals option" where
  "fvg_enter_long entry_fill_ratio df i st =
     (if fvg_current_position st = ''none'' \<or> fvg_current_position st = ''short''
      then (case active_bullish_fvg st of
              None \<Rightarrow> Inr None
            | Some k \<Rightarrow>
                (let g = fair_value_gaps st ! k
                 in if filled g then Inr None
                    else (let entry_target_price =
                                fvg_high g - (fvg_high g - fvg_low g) * entry_fill_ratio
                          in case series_item df i ''low'' of
                               Inl e \<Rightarrow> Inl e
                             | Inr lo \<Rightarrow>
                                 if lo \<le> entry_target_price \<and> lo \<ge> fvg_low g
                                 then Inr (Some (st\<lparr>fvg_signals := (fvg_signals st)[i := ''buy''],
                                       fvg_current_position := ''long'',
                                       fair_value_gaps :=
                                         mark_filled (fair_value_gaps st) k (index df ! i),
                                       active_bearish_fvg := None\<rparr>))
                                 else Inr None)))
      else Inr None)"

definition fvg_enter_short ::
  "real \<Rightarrow> frame \<Rightarrow> nat \<Rightarrow> fvg_locals \<Rightarrow> py_error + fvg_locals option" where
  "fvg_enter_short entry_fill_ratio df i st =
     (if fvg_current_position st = ''none'' \<or> fvg_current_position st = ''long''
      then (case active_bearish_fvg st of
              None \<Rightarrow> Inr None
            | Some k \<Rightarrow>
                (let g = fair_value_gaps st ! k
                 in if filled g then Inr None
                    else (let entry_target_price =
                                fvg_low g + (fvg_high g - fvg_low g) * entry_fill_ratio
                          in case series_item df i ''high'' of
                               Inl e \<Rightarrow> Inl e
                             | Inr hi \<Rightarrow>
                                 if hi \<ge> entry_target_price \<and> hi \<le> fvg_high g
                                 then Inr (Some (st\<lparr>fvg_signals := (fvg_signals st)[i := ''sell''],
                                       fvg_current_position := ''short'',
                                       fair_value_gaps :=
                                         mark_filled (fair_value_gaps st) k (index df ! i),
                                       active_bullish_fvg := None\<rparr>))
                                 else Inr None)))
      else Inr None)"

definition fvg_exit_long ::
  "real \<Rightarrow> frame \<Rightarrow> nat \<Rightarrow> fvg_locals \<Rightarrow> py_error + fvg_locals option" where
  "fvg_exit_long entry_fill_ratio df i st =
     (if fvg_current_position st = ''long''
      then (case active_bearish_fvg st of
              None \<Rightarrow> Inr None
            | Some k \<Rightarrow>
                (let g = fair_value_gaps st ! k
                 in if filled g then Inr None
                    else (let entry_target_price =
                                fvg_low g + (fvg_high g - fvg_low g) * entry_fill_ratio
                          in case series_item df i ''high'' of
                               Inl e \<Rightarrow> Inl e
                             | Inr hi \<Rightarrow>
                                 if hi \<ge> entry_target_price
                                 then Inr (Some (st\<lparr>fvg_signals := (fvg_signals st)[i := ''sell''],
                                       fvg_current_position := ''none'',
                                       fair_value_gaps :=
                                         mark_filled (fair_value_gaps st) k (index df ! i),
                                       active_bullish_fvg := None\<rparr>))
                                 else Inr None)))
      else Inr None)"

definition fvg_exit_short ::
  "real \<Rightarrow> frame \<Rightarrow> nat \<Rightarrow> fvg_locals \<Rightarrow> py_error + fvg_locals option" where
  "fvg_exit_short entry_fill_ratio df i st =
     (if fvg_current_position st = ''short''
      then (case active_bullish_fvg st of
              None \<Rightarrow> Inr None
            | Some k \<Rightarrow>
                (let g = fair_value_gaps st ! k
                 in if filled g then Inr None
                    else (let entry_target_price =
                                fvg_high g - (fvg_high g - fvg_low g) * entry_fill_ratio
                          in case series_item df i ''low'' of
                               Inl e \<Rightarrow> Inl e
                             | Inr lo \<Rightarrow>
                                 if lo \<le> entry_target_price
                                 then Inr (Some (st\<lparr>fvg_signals := (fvg_signals st)[i := ''buy''],
                                       fvg_current_position := ''none'',
                                       fair_value_gaps :=
                                         mark_filled (fair_value_gaps st) k (index df ! i),
                                       active_bearish_fvg := None\<rparr>))
                                 else Inr None)))
      else Inr None)"

definition fvg_pass :: "real \<Rightarrow> frame \<Rightarrow> nat \<Rightarrow> fvg_locals \<Rightarrow> py_error + fvg_locals" where
  "fvg_pass entry_fill_ratio df i st =
     (let current_time = index df ! i;
          act = foldl (select_fvg (fair_value_gaps st) current_time)
                  (active_bullish_fvg st, active_bearish_fvg st)
                  [0..<length (fair_value_gaps st)];
          st1 = st\<lparr>active_bullish_fvg := fst act, active_bearish_fvg := snd act\<rparr>
      in first_firing
           [fvg_enter_long entry_fill_ratio df i, fvg_enter_short entry_fill_ratio df i,
            fvg_exit_long entry_fill_ratio df i, fvg_exit_short entry_fill_ratio df i]
           st1)"

fun fvg_passes :: "real \<Rightarrow> frame \<Rightarrow> nat list \<Rightarrow> fvg_locals \<Rightarrow> py_error + fvg_locals" where
  "fvg_passes r df [] st = Inr st"
| "fvg_passes r df (i # is) st =
     (case fvg_pass r df i st of
        Inl e \<Rightarrow> Inl e
      | Inr st' \<Rightarrow> fvg_passes r df is st')"

text \<open>
  The body of \<open>ExampleStrategy2.generate_signals\<close>, its parameter \<open>entry_fill_ratio\<close> first. Fewer
  than three bars: the list of holds is returned at once (lines 30-32).
\<close>

definition ExampleStrategy2_generate_signals_body :: "real \<Rightarrow> frame \<Rightarrow> py_error + string list" where
  "ExampleStrategy2_generate_signals_body entry_fill_ratio ohlcv =
     (let signals = replicate (len ohlcv) ''hold''
      in if len ohlcv < 3 then Inr signals
         else (case identify_fair_value_gaps_body ohlcv of
                 Inl e \<Rightarrow> Inl e
               | Inr gaps \<Rightarrow>
                   (case fvg_passes entry_fill_ratio ohlcv [0..<len ohlcv]
                           \<lparr>fvg_signals = signals, fair_value_gaps = gaps,
                            active_bullish_fvg = None, active_bearish_fvg = None,
                            fvg_current_position = ''none''\<rparr> of
                      Inl e \<Rightarrow> Inl e
                    | Inr st \<Rightarrow> Inr (fvg_signals st))))"



section \<open>core/backtester.py\<close>

text \<open>One entry of \<open>trade_log\<close> (a dict in the source).\<close>

record Trade =
  t_timestamp :: timestamp
  t_type :: string
  t_price :: real
  t_size :: real
  t_commission :: real
  t_pnl :: real
  t_cash :: real
  t_portfolio_value :: real

text \<open>
  One row of \<open>positions_df\<close>. The frame is created without values; \<open>run\<close> fills the
  columns signal, cash, holdings\_value and portfolio\_value for every row before its
  loop, so only position\_qty, entry\_price and trade\_pnl can still be unset (NaN, here
  \<open>None\<close>) while the loop runs.
\<close>

record ValuationRow =
  signal :: string
  position_qty :: "real option"
  entry_price :: "real option"
  trade_pnl :: "real option"
  cash :: real
  holdings_value :: real
  portfolio_value :: real

text \<open>
  A row as \<open>__init__\<close> creates it. The three real-valued cells are unset too in the
  source; \<open>run\<close> overwrites them (lines 82-84) before anything reads them.
\<close>

definition unset_row :: ValuationRow where
  "unset_row = \<lparr>signal = [], position_qty = None, entry_price = None, trade_pnl = None,
                 cash = 0, holdings_value = 0, portfolio_value = 0\<rparr>"

text \<open>The object \<open>self\<close>. The strategy is its \<open>generate_signals\<close>, which may raise.\<close>

record Backtester =
  ohlcv_data :: frame
  strategy :: "frame \<Rightarrow> py_error + string list"
  initial_capital :: real
  commission_rate :: real
  slippage_rate :: real
  default_position_size :: real
  execution_price_type :: string
  positions_df :: "ValuationRow list"
  trade_log :: "Trade list"
  current_cash :: real
  current_position_qty :: real
  avg_entry_price :: real

definition Backtester_init ::
  "frame \<Rightarrow> (frame \<Rightarrow> py_error + string list) \<Rightarrow> real \<Rightarrow> real \<Rightarrow> real \<Rightarrow> real \<Rightarrow> string
     \<Rightarrow> py_error + Backtester" where
  "Backtester_init ohlcv strategy_instance capital commission_bps slippage_bps position_size
       price_type =
     (if \<not> list_all (\<lambda>col. col \<in> set (columns ohlcv)) [''open'', ''high'', ''low'', ''close'']
      then Inl (ValueError ''ohlcv_data must contain the required columns.'')
      else if price_type = ''next_open'' \<and> ''open'' \<notin> set (columns ohlcv)
      then Inl (ValueError ''ohlcv_data must contain open column for next_open.'')
      else Inr \<lparr>ohlcv_data = ohlcv, strategy = strategy_instance,
                initial_capital = capital,
                commission_rate = commission_bps / 10000,
                slippage_rate = slippage_bps / 10000,
                default_position_size = position_size,
                execution_price_type = lower price_type,
                positions_df = replicate (len ohlcv) unset_row, trade_log = [],
                current_cash = capital, current_position_qty = 0, avg_entry_price = 0\<rparr>)"

text \<open>
  \<open>_get_execution_price\<close>: \<open>Inr None\<close> is the returned \<open>None\<close> (no next bar), \<open>Inl\<close> the
  \<open>KeyError\<close> of a missing column.
\<close>

definition get_execution_price :: "Backtester \<Rightarrow> nat \<Rightarrow> string \<Rightarrow> py_error + real option" where
  "get_execution_price self current_bar_index signal_type =
     (let slip = (\<lambda>intended_price.
            if signal_type = ''buy'' then intended_price * (1 + slippage_rate self)
            else if signal_type = ''sell'' then intended_price * (1 - slippage_rate self)
            else intended_price)
      in if execution_price_type self = ''next_open''
         then (if current_bar_index + 1 < len (ohlcv_data self)
               then (case series_item (ohlcv_data self) (current_bar_index + 1) ''open'' of
                       Inl e \<Rightarrow> Inl e
                     | Inr intended_price \<Rightarrow> Inr (Some (slip intended_price)))
               else Inr None)
         else (case series_item (ohlcv_data self) current_bar_index ''close'' of
                 Inl e \<Rightarrow> Inl e
               | Inr intended_price \<Rightarrow> Inr (Some (slip intended_price))))"

definition calculate_commission :: "Backtester \<Rightarrow> real \<Rightarrow> real" where
  "calculate_commission self trade_value = abs trade_value * commission_rate self"

subsection \<open>The body of the loop of run\<close>

text \<open>
  Lines 93-100: carry forward, then mark to market (the snapshot before the trade).
  The timestamps are pairwise different, so \<open>.loc[timestamp, ...]\<close> is the row \<open>i\<close>.
\<close>

definition pre_trade :: "Backtester \<Rightarrow> nat \<Rightarrow> real \<Rightarrow> Backtester" where
  "pre_trade self i current_close_price =
     (let rows = positions_df self;
          row = rows ! i;
          row1 = (if i > 0
                  then row\<lparr>cash := cash (rows ! (i - 1)),
                           position_qty := Some (current_position_qty self),
                           entry_price := Some (avg_entry_price self)\<rparr>
                  else row);
          row2 = row1\<lparr>holdings_value := current_position_qty self * current_close_price\<rparr>;
          row3 = row2\<lparr>portfolio_value := cash row2 + holdings_value row2\<rparr>
      in self\<lparr>positions_df := rows[i := row3]\<rparr>)"

text \<open>Lines 110-124: closing a short position. The second component is \<open>trade_pnl\<close>.\<close>

definition cover_short :: "Backtester \<Rightarrow> timestamp \<Rightarrow> real \<Rightarrow> Backtester \<times> real" where
  "cover_short self ts execution_price =
     (let qty_to_trade = abs (current_position_qty self);
          trade_value = qty_to_trade * execution_price;
          commission = calculate_commission self trade_value;
          pnl = qty_to_trade * (avg_entry_price self - execution_price) - commission;
          new_cash = current_cash self - (trade_value + commission)
      in (self\<lparr>current_cash := new_cash,
                trade_log := trade_log self @
                  [\<lparr>t_timestamp = ts, t_type = ''cover_short'', t_price = execution_price,
                    t_size = qty_to_trade, t_commission = commission, t_pnl = pnl,
                    t_cash = new_cash, t_portfolio_value = new_cash\<rparr>],
                current_position_qty := 0,
                avg_entry_price := 0\<rparr>, pnl))"

text \<open>Lines 127-144: opening a long position, skipped without a trace when cash is short.\<close>

definition open_long :: "Backtester \<Rightarrow> timestamp \<Rightarrow> real \<Rightarrow> real \<Rightarrow> Backtester" where
  "open_long self ts execution_price current_close_price =
     (let qty_to_trade = default_position_size self;
          trade_value = qty_to_trade * execution_price;
          commission = calculate_commission self trade_value
      in if current_cash self \<ge> trade_value + commission
         then (let new_cash = current_cash self - (trade_value + commission);
                   new_entry =
                     (if current_position_qty self \<noteq> 0
                      then (avg_entry_price self * current_position_qty self
                              + execution_price * qty_to_trade)
                           / (current_position_qty self + qty_to_trade)
                      else execution_price);
                   new_qty = current_position_qty self + qty_to_trade
               in self\<lparr>current_cash := new_cash,
                        avg_entry_price := new_entry,
                        current_position_qty := new_qty,
                        trade_log := trade_log self @
                          [\<lparr>t_timestamp = ts, t_type = ''buy_long'', t_price = execution_price,
                            t_size = qty_to_trade, t_commission = commission, t_pnl = 0,
                            t_cash = new_cash,
                            t_portfolio_value = new_cash + new_qty * current_close_price\<rparr>]\<rparr>)
         else self)"

text \<open>Lines 109-144: the buy signal.\<close>

definition buy_signal :: "Backtester \<Rightarrow> timestamp \<Rightarrow> real \<Rightarrow> real \<Rightarrow> Backtester \<times> real" where
  "buy_signal self ts execution_price current_close_price =
     (let (self1, pnl) = (if current_position_qty self < 0
                          then cover_short self ts execution_price
                          else (self, 0))
      in (if current_position_qty self1 = 0
          then open_long self1 ts execution_price current_close_price
          else self1, pnl))"

text \<open>Lines 149-163: closing a long position.\<close>

definition close_long :: "Backtester \<Rightarrow> timestamp \<Rightarrow> real \<Rightarrow> Backtester \<times> real" where
  "close_long self ts execution_price =
     (let qty_to_trade = current_position_qty self;
          trade_value = qty_to_trade * execution_price;
          commission = calculate_commission self trade_value;
          pnl = qty_to_trade * (execution_price - avg_entry_price self) - commission;
          new_cash = current_cash self + (trade_value - commission)
      in (self\<lparr>current_cash := new_cash,
                trade_log := trade_log self @
                  [\<lparr>t_timestamp = ts, t_type = ''sell_long'', t_price = execution_price,
                    t_size = qty_to_trade, t_commission = commission, t_pnl = pnl,
                    t_cash = new_cash, t_portfolio_value = new_cash\<rparr>],
                current_position_qty := 0,
                avg_entry_price := 0\<rparr>, pnl))"

text \<open>Lines 166-180: opening a short position; there is no check of the funds.\<close>

definition open_short :: "Backtester \<Rightarrow> timestamp \<Rightarrow> real \<Rightarrow> real \<Rightarrow> Backtester" where
  "open_short self ts execution_price current_close_price =
     (let qty_to_trade = default_position_size self;
          trade_value = qty_to_trade * execution_price;
          commission = calculate_commission self trade_value;
          new_cash = current_cash self + (trade_value - commission);
          new_entry =
            (if current_position_qty self \<noteq> 0
             then (avg_entry_price self * abs (current_position_qty self)
                     + execution_price * qty_to_trade)
                  / (abs (current_position_qty self) + qty_to_trade)
             else execution_price);
          new_qty = current_position_qty self - qty_to_trade
      in self\<lparr>current_cash := new_cash,
               avg_entry_price := new_entry,
               current_position_qty := new_qty,
               trade_log := trade_log self @
                 [\<lparr>t_timestamp = ts, t_type = ''sell_short'', t_price = execution_price,
                   t_size = qty_to_trade, t_commission = commission, t_pnl = 0,
                   t_cash = new_cash,
                   t_portfolio_value = new_cash + new_qty * current_close_price\<rparr>]\<rparr>)"

text \<open>Lines 148-180: the sell signal.\<close>

definition sell_signal :: "Backtester \<Rightarrow> timestamp \<Rightarrow> real \<Rightarrow> real \<Rightarrow> Backtester \<times> real" where
  "sell_signal self ts execution_price current_close_price =
     (let (self1, pnl) = (if current_position_qty self > 0
                          then close_long self ts execution_price
                          else (self, 0))
      in (if current_position_qty self1 = 0
          then open_short self1 ts execution_price current_close_price
          else self1, pnl))"

text \<open>Lines 184-189: the snapshot after the trade.\<close>

definition post_trade :: "Backtester \<Rightarrow> nat \<Rightarrow> real \<Rightarrow> real \<Rightarrow> Backtester" where
  "post_trade self i current_close_price pnl =
     (let rows = positions_df self;
          holdings = current_position_qty self * current_close_price;
          row = (rows ! i)
            \<lparr>trade_pnl := (if pnl \<noteq> 0 then Some pnl else None),
             position_qty := Some (current_position_qty self),
             entry_price := (if current_position_qty self \<noteq> 0
                             then Some (avg_entry_price self) else None),
             cash := current_cash self,
             holdings_value := holdings,
             portfolio_value := current_cash self + holdings\<rparr>
      in self\<lparr>positions_df := rows[i := row]\<rparr>)"

text \<open>
  One pass of the loop with the close and the execution price already read:
  \<open>None\<close> as execution price is the \<open>continue\<close> of line 104.
\<close>

definition process_bar ::
  "Backtester \<Rightarrow> nat \<Rightarrow> timestamp \<Rightarrow> string \<Rightarrow> real \<Rightarrow> real option \<Rightarrow> Backtester" where
  "process_bar self i ts sig current_close_price execution_price =
     (let self1 = pre_trade self i current_close_price
      in case execution_price of
           None \<Rightarrow> self1
         | Some px \<Rightarrow>
             (let (self2, pnl) =
                    (if sig = ''buy'' then buy_signal self1 ts px current_close_price
                     else if sig = ''sell'' then sell_signal self1 ts px current_close_price
                     else (self1, 0))
              in post_trade self2 i current_close_price pnl))"

text \<open>
  One pass of the loop as the source runs it, reading the frame. The methods change
  \<open>self\<close> in place, so an exception leaves the object as it is at the raise: \<open>Inl\<close>
  carries the exception with that object. The close is read before anything is written
  (line 90), the execution price after the first snapshot (line 102).
\<close>

definition run_bar :: "Backtester \<Rightarrow> nat \<Rightarrow> py_error \<times> Backtester + Backtester" where
  "run_bar self i =
     (let sig = signal (positions_df self ! i)
      in case series_item (ohlcv_data self) i ''close'' of
           Inl e \<Rightarrow> Inl (e, self)
         | Inr current_close_price \<Rightarrow>
             (case get_execution_price self i sig of
                Inl e \<Rightarrow> Inl (e, pre_trade self i current_close_price)
              | Inr execution_price \<Rightarrow>
                  Inr (process_bar self i (index (ohlcv_data self) ! i) sig
                         current_close_price execution_price)))"

fun run_loop :: "Backtester \<Rightarrow> nat list \<Rightarrow> py_error \<times> Backtester + Backtester" where
  "run_loop self [] = Inr self"
| "run_loop self (i # is) =
     (case run_bar self i of Inl raised \<Rightarrow> Inl raised | Inr self' \<Rightarrow> run_loop self' is)"

subsection \<open>calculate\_performance\_metrics\<close>

text \<open>
  The result of a float division, where pandas divides by zero without raising:
  \<open>x / 0\<close> is an infinity with the sign of \<open>x\<close>, and \<open>0 / 0\<close> is NaN.
\<close>

datatype fval = Num real | NegInf | PosInf | NaN

definition fdiv :: "real \<Rightarrow> real \<Rightarrow> fval" where
  "fdiv x y =
     (if y \<noteq> 0 then Num (x / y)
      else if x = 0 then NaN
      else if x > 0 then PosInf
      else NegInf)"

text \<open>The comparison \<open>x <= 0\<close> of such a value: false for NaN, as every comparison.\<close>

fun le_zero :: "fval \<Rightarrow> bool" where
  "le_zero (Num a) = (a \<le> 0)"
| "le_zero NegInf = True"
| "le_zero PosInf = False"
| "le_zero NaN = False"

text \<open>The smaller of two values that are not NaN.\<close>

fun fmin :: "fval \<Rightarrow> fval \<Rightarrow> fval" where
  "fmin NegInf y = NegInf"
| "fmin x NegInf = NegInf"
| "fmin PosInf y = y"
| "fmin x PosInf = x"
| "fmin (Num a) (Num b) = Num (min a b)"
| "fmin x y = NaN"

text \<open>\<open>Series.min()\<close>: NaN entries are skipped; NaN when nothing is left.\<close>

definition series_min :: "fval list \<Rightarrow> fval" where
  "series_min xs =
     (case filter (\<lambda>x. x \<noteq> NaN) xs of [] \<Rightarrow> NaN | y # ys \<Rightarrow> foldl fmin y ys)"

text \<open>Multiplication by a positive constant.\<close>

fun fscale :: "fval \<Rightarrow> real \<Rightarrow> fval" where
  "fscale (Num a) k = Num (a * k)"
| "fscale x k = x"

text \<open>\<open>expanding(min_periods=1).max()\<close>: the maximum seen so far, from the first row.\<close>

fun running_max :: "real \<Rightarrow> real list \<Rightarrow> real list" where
  "running_max m [] = []"
| "running_max m (v # vs) = max m v # running_max (max m v) vs"

fun expanding_max :: "real list \<Rightarrow> real list" where
  "expanding_max [] = []"
| "expanding_max (v # vs) = v # running_max v vs"

text \<open>Lines 224-227.\<close>

definition drawdown :: "real list \<Rightarrow> fval list" where
  "drawdown portfolio_values =
     map (\<lambda>(v, peak). fdiv (v - peak) peak)
       (zip portfolio_values (expanding_max portfolio_values))"

definition max_drawdown :: "real list \<Rightarrow> fval" where
  "max_drawdown portfolio_values = fscale (series_min (drawdown portfolio_values)) 100"

text \<open>
  The returned dict, without its Sharpe ratio (a floating-point statistic that no
  property below reads). \<open>max_drawdown\<close> is never \<open>None\<close>, so the entry
  max\_drawdown\_pct is \<open>max_drawdown\<close> itself.
\<close>

record Metrics =
  m_initial_capital :: real
  m_final_portfolio_value :: real
  m_total_pnl_realized :: real
  m_total_return_pct :: real
  m_num_closed_trades :: nat
  m_winning_trades :: nat
  m_losing_trades :: nat
  m_win_rate_pct :: real
  m_max_drawdown_pct :: fval
  m_trade_log :: "Trade list"

definition calculate_performance_metrics :: "Backtester \<Rightarrow> Metrics" where
  "calculate_performance_metrics self =
     (let final_portfolio_value =
            (if positions_df self \<noteq> [] then portfolio_value (last (positions_df self))
             else initial_capital self);
          total_pnl_from_trades =
            sum_list (map (\<lambda>row. case trade_pnl row of None \<Rightarrow> 0 | Some x \<Rightarrow> x)
              (positions_df self));
          closed = filter (\<lambda>trade. t_pnl trade \<noteq> 0) (trade_log self);
          num_closed_trades = length closed;
          winning_trades = length (filter (\<lambda>trade. t_pnl trade > 0) closed);
          losing_trades = length (filter (\<lambda>trade. t_pnl trade < 0) closed);
          win_rate = (if num_closed_trades > 0
                      then real winning_trades / real num_closed_trades * 100 else 0)
      in \<lparr>m_initial_capital = initial_capital self,
          m_final_portfolio_value = final_portfolio_value,
          m_total_pnl_realized = total_pnl_from_trades,
          m_total_return_pct =
            (if initial_capital self > 0
             then (final_portfolio_value / initial_capital self - 1) * 100 else 0),
          m_num_closed_trades = num_closed_trades,
          m_winning_trades = winning_trades,
          m_losing_trades = losing_trades,
          m_win_rate_pct = win_rate,
          m_max_drawdown_pct = max_drawdown (map portfolio_value (positions_df self)),
          m_trade_log = trade_log self\<rparr>)"

subsection \<open>run\<close>

text \<open>
  Lines 77-86 and 194. \<open>Inr\<close> is the return: the object after the run and the metrics.
  \<open>Inl\<close> is a raise: the exception and the object as the raise leaves it. The test of
  the number of signals is the first statement after the call of the strategy, so its
  \<open>ValueError\<close> leaves the object as it was before the call of \<open>run\<close>: no row of
  \<open>positions_df\<close> is written and no bar is processed. Reading the first close of an empty
  series raises \<open>IndexError\<close>, after lines 81-84 have written the rows.
\<close>

definition run :: "Backtester \<Rightarrow> py_error \<times> Backtester + Backtester \<times> Metrics" where
  "run self =
     (case strategy self (ohlcv_data self) of
        Inl e \<Rightarrow> Inl (e, self)
      | Inr signals \<Rightarrow>
          if length signals \<noteq> len (ohlcv_data self)
          then Inl (ValueError ''Number of signals must match number of data points.'', self)
          else
            (let self1 = self\<lparr>positions_df :=
                    map (\<lambda>(row, s). row\<lparr>signal := s, cash := initial_capital self,
                                        holdings_value := 0,
                                        portfolio_value := initial_capital self\<rparr>)
                      (zip (positions_df self) signals)\<rparr>
             in if ''close'' \<notin> set (columns (ohlcv_data self))
                then Inl (KeyError ''close'', self1)
                else if len (ohlcv_data self) = 0 then Inl (IndexError, self1)
                else (case run_loop self1 [0..<len (ohlcv_data self)] of
                        Inl raised \<Rightarrow> Inl raised
                      | Inr self2 \<Rightarrow> Inr (self2, calculate_performance_metrics self2))))"

subsection \<open>Cash conservation of a row\<close>

text \<open>
  The property of one row of \<open>positions_df\<close> in the words of the specification:
  portfolio\_value equals cash plus position\_qty times the close of the bar. An unset
  position\_qty makes the right-hand side NaN, which equals nothing.
\<close>

definition row_conserves :: "frame \<Rightarrow> ValuationRow list \<Rightarrow> nat \<Rightarrow> bool" where
  "row_conserves df rows i =
     (case (position_qty (rows ! i), series_item df i ''close'') of
        (Some q, Inr c) \<Rightarrow> portfolio_value (rows ! i) = cash (rows ! i) + q * c
      | _ \<Rightarrow> False)"

section \<open>Inputs of the examples\<close>

text \<open>The two bars of the order-block example, without a volume column.\<close>

definition two_bar :: "timestamp \<Rightarrow> timestamp \<Rightarrow> frame" where
  "two_bar t0 t1 =
     \<lparr>index = [t0, t1],
      data = [(''open'', [100, 98]), (''high'', [101, 103]),
              (''low'', [99, 97]), (''close'', [98, 102])]\<rparr>"

text \<open>The frame of the commented test of smc\_concepts.py: the high column is missing.\<close>

definition missing_high :: frame where
  "missing_high =
     \<lparr>index = [0], data = [(''open'', [100]), (''low'', [99]), (''close'', [100])]\<rparr>"

text \<open>Three bars with a bullish gap: the low of the first is 110, the high of the third 108.\<close>

definition three_bar :: frame where
  "three_bar =
     \<lparr>index = [10, 20, 30],
      data = [(''open'', [109, 111, 107]), (''high'', [112, 112, 108]),
              (''low'', [110, 109, 106]), (''close'', [111, 110, 215 / 2]),
              (''volume'', [100, 50, 100])]\<rparr>"

text \<open>Three rising bars, and a single bar.\<close>

definition bars3 :: frame where
  "bars3 =
     \<lparr>index = [1, 2, 3],
      data = [(''open'', [100, 101, 102]), (''high'', [102, 103, 104]),
              (''low'', [99, 100, 101]), (''close'', [101, 102, 103])]\<rparr>"

definition one_bar :: frame where
  "one_bar =
     \<lparr>index = [1],
      data = [(''open'', [100]), (''high'', [101]), (''low'', [99]), (''close'', [100])]\<rparr>"

text \<open>Three bars closing at 100, 99.5 and 100.\<close>

definition short_bars :: frame where
  "short_bars =
     \<lparr>index = [1, 2, 3],
      data = [(''open'', [100, 100, 100]), (''high'', [100, 100, 100]),
              (''low'', [99, 99, 99]), (''close'', [100, 199 / 2, 100])]\<rparr>"

text \<open>
  The object \<open>Backtester(df, strategy, initial_capital=capital, execution_price_type=mode)\<close>
  with the default commission, slippage and position size, for a strategy that answers
  the fixed list \<open>sigs\<close>.
\<close>

definition fixed_signals :: "string list \<Rightarrow> frame \<Rightarrow> py_error + string list" where
  "fixed_signals sigs df = Inr sigs"

definition example_backtester :: "frame \<Rightarrow> string list \<Rightarrow> real \<Rightarrow> string \<Rightarrow> Backtester" where
  "example_backtester df sigs capital mode =
     \<lparr>ohlcv_data = df, strategy = fixed_signals sigs,
      initial_capital = capital,
      commission_rate = 2 / 10000,
      slippage_rate = 1 / 10000,
      default_position_size = 1,
      execution_price_type = mode,
      positions_df = replicate (len df) unset_row, trade_log = [],
      current_cash = capital, current_position_qty = 0, avg_entry_price = 0\<rparr>"

text \<open>Four bars: the bullish gap of the first three, and a fourth bar dipping into it.\<close>

definition four_bar :: frame where
  "four_bar =
     \<lparr>index = [10, 20, 30, 40],
      data = [(''open'', [109, 111, 107, 108]), (''high'', [112, 112, 108, 110]),
              (''low'', [110, 109, 106, 109]), (''close'', [111, 110, 215 / 2, 109])]\<rparr>"

section \<open>The detectors\<close>

lemmas frame_eval =
  ensure_datetime_index_and_columns_def rename_columns_def rename_label_def lower_def
  lower_char_def columns_def essential_cols_def len_def iloc_def series_item_def
  series_get_def

lemma len_rename_columns: "len (rename_columns df) = len df"
  by (simp add: len_def rename_columns_def)

lemma index_rename_columns: "index (rename_columns df) = index df"
  by (simp add: rename_columns_def)

lemma ensure_Inr_iff:
  "ensure_datetime_index_and_columns df = Inr d \<longleftrightarrow>
     list_all (\<lambda>col. col \<in> set (columns (rename_columns df))) essential_cols \<and>
     d = rename_columns df"
  by (auto simp: ensure_datetime_index_and_columns_def Let_def)

lemma ensure_len: "ensure_datetime_index_and_columns df = Inr d \<Longrightarrow> len d = len df"
  by (simp add: ensure_Inr_iff len_rename_columns)

lemma series_item_present:
  assumes "label \<in> set (columns d)"
  shows "\<exists>v. series_item d i label = Inr v"
proof -
  from assms have "map_of (data d) label \<noteq> None"
    by (simp add: columns_def map_of_eq_None_iff)
  then show ?thesis
    by (auto simp: series_item_def series_get_def)
qed

lemma iloc_total:
  assumes "list_all (\<lambda>col. col \<in> set (columns d)) essential_cols"
  shows "\<exists>c. iloc d i = Inr c \<and> c_timestamp c = index d ! i"
proof -
  from assms have m: "''open'' \<in> set (columns d)" "''high'' \<in> set (columns d)"
    "''low'' \<in> set (columns d)" "''close'' \<in> set (columns d)"
    by (simp_all add: essential_cols_def)
  from m(1) obtain a where a: "series_item d i ''open'' = Inr a"
    using series_item_present by blast
  from m(2) obtain b where b: "series_item d i ''high'' = Inr b"
    using series_item_present by blast
  from m(3) obtain c where c: "series_item d i ''low'' = Inr c"
    using series_item_present by blast
  from m(4) obtain e where e: "series_item d i ''close'' = Inr e"
    using series_item_present by blast
  show ?thesis by (simp add: iloc_def a b c e)
qed

text \<open>After a successful normalisation every row can be read.\<close>

lemma rows_readable:
  assumes "ensure_datetime_index_and_columns df = Inr d"
  shows "\<exists>cs. length cs = len df \<and>
          (\<forall>i. i < len df \<longrightarrow> iloc d i = Inr (cs ! i) \<and> c_timestamp (cs ! i) = index df ! i)"
proof -
  from assms have "list_all (\<lambda>col. col \<in> set (columns d)) essential_cols"
    and ix: "index d = index df"
    by (simp_all add: ensure_Inr_iff index_rename_columns)
  then have "\<forall>i. \<exists>c. iloc d i = Inr c \<and> c_timestamp c = index df ! i"
    using iloc_total by metis
  then obtain f where f: "\<And>i. iloc d i = Inr (f i) \<and> c_timestamp (f i) = index df ! i"
    by metis
  have "length (map f [0..<len df]) = len df \<and>
        (\<forall>i. i < len df \<longrightarrow> iloc d i = Inr (map f [0..<len df] ! i) \<and>
              c_timestamp (map f [0..<len df] ! i) = index df ! i)"
    by (simp add: f)
  then show ?thesis by blast
qed

lemma ob_for_concat:
  "(\<And>i. i \<in> set js \<Longrightarrow> iloc d (i - 1) = Inr (cs ! (i - 1)) \<and> iloc d i = Inr (cs ! i)) \<Longrightarrow>
   ob_for d sf js acc = Inr (acc @ concat (map (\<lambda>i. ob_body sf (cs ! (i - 1)) (cs ! i)) js))"
  by (induction js arbitrary: acc) simp_all

lemma fvg_for_concat:
  "(\<And>i. i \<in> set js \<Longrightarrow> iloc d i = Inr (cs ! i) \<and> iloc d (i + 2) = Inr (cs ! (i + 2))) \<Longrightarrow>
   fvg_for d js acc = Inr (acc @ concat (map (\<lambda>i. fvg_body (cs ! i) (cs ! (i + 2))) js))"
  by (induction js arbitrary: acc) simp_all

lemma identify_order_blocks_body_concat:
  assumes e: "ensure_datetime_index_and_columns df = Inr d"
  shows "\<exists>cs. length cs = len df \<and> (\<forall>i. i < len df \<longrightarrow> iloc d i = Inr (cs ! i)) \<and>
           identify_order_blocks_body df sf =
             Inr (concat (map (\<lambda>i. ob_body sf (cs ! (i - 1)) (cs ! i)) [1..<len df]))"
proof -
  from e have l: "len d = len df" by (rule ensure_len)
  from rows_readable [OF e] obtain cs where
    cs: "length cs = len df" "\<And>i. i < len df \<Longrightarrow> iloc d i = Inr (cs ! i)"
    by auto
  have "ob_for d sf [1..<len df] [] =
      Inr ([] @ concat (map (\<lambda>i. ob_body sf (cs ! (i - 1)) (cs ! i)) [1..<len df]))"
    by (rule ob_for_concat) (auto simp: cs(2))
  then have "identify_order_blocks_body df sf =
             Inr (concat (map (\<lambda>i. ob_body sf (cs ! (i - 1)) (cs ! i)) [1..<len df]))"
    by (simp add: identify_order_blocks_body_def e l)
  with cs show ?thesis by blast
qed

lemma identify_fair_value_gaps_body_concat:
  assumes e: "ensure_datetime_index_and_columns df = Inr d"
  shows "\<exists>cs. length cs = len df \<and>
           (\<forall>i. i < len df \<longrightarrow> iloc d i = Inr (cs ! i) \<and> c_timestamp (cs ! i) = index df ! i) \<and>
           identify_fair_value_gaps_body df =
             Inr (concat (map (\<lambda>i. fvg_body (cs ! i) (cs ! (i + 2))) [0..<len df - 2]))"
proof -
  from e have l: "len d = len df" by (rule ensure_len)
  from rows_readable [OF e] obtain cs where
    cs: "length cs = len df"
      "\<And>i. i < len df \<Longrightarrow> iloc d i = Inr (cs ! i) \<and> c_timestamp (cs ! i) = index df ! i"
    by auto
  have "fvg_for d [0..<len df - 2] [] =
      Inr ([] @ concat (map (\<lambda>i. fvg_body (cs ! i) (cs ! (i + 2))) [0..<len df - 2]))"
    by (rule fvg_for_concat) (auto simp: cs(2))
  then have "identify_fair_value_gaps_body df =
             Inr (concat (map (\<lambda>i. fvg_body (cs ! i) (cs ! (i + 2))) [0..<len df - 2]))"
    by (simp add: identify_fair_value_gaps_body_def e l)
  with cs show ?thesis by blast
qed

subsection \<open>The bodies of the detectors\<close>

text \<open>
  What the bodies compute when they run. On a frame whose standardised labels lack one
  of open, high, low, close, the helper raises \<open>ValueError\<close>, and both bodies catch it
  and return the empty list.
\<close>

lemma detector_bodies_missing_columns:
  assumes "\<not> list_all (\<lambda>col. col \<in> set (columns (rename_columns df))) essential_cols"
  shows "ensure_datetime_index_and_columns df =
           Inl (ValueError ''Essential OHLC columns missing.'')
       \<and> identify_order_blocks_body df sf = Inr []
       \<and> identify_fair_value_gaps_body df = Inr []"
  using assms
  by (simp add: ensure_datetime_index_and_columns_def identify_order_blocks_body_def
      identify_fair_value_gaps_body_def Let_def)

lemma detector_bodies_missing_high:
  "''high'' \<notin> set (columns (rename_columns missing_high))
   \<and> identify_order_blocks_body missing_high (12 / 10) = Inr []
   \<and> identify_fair_value_gaps_body missing_high = Inr []"
  by (simp add: identify_order_blocks_body_def identify_fair_value_gaps_body_def frame_eval
      missing_high_def)

text \<open>
  A pair of bars contributes a bullish block, over the range of the previous bar, exactly
  when the previous bar closes below its open, the current bar closes above its open and
  above the previous high, and the current body exceeds the previous body times the
  factor.
\<close>

lemma ob_body_bullish:
  "filter ob_is_bullish (ob_body sf prev_c curr_c) =
     (if c_close prev_c < c_open prev_c \<and> c_close curr_c > c_open curr_c
         \<and> c_close curr_c > c_high prev_c
         \<and> abs (c_close curr_c - c_open curr_c) > abs (c_close prev_c - c_open prev_c) * sf
      then [\<lparr>ob_start_time = c_timestamp prev_c, ob_end_time = c_timestamp prev_c,
             ob_high = c_high prev_c, ob_low = c_low prev_c, ob_volume = c_volume prev_c,
             ob_is_bullish = True, ob_mitigated_time = None, ob_mitigated_by_wick = False\<rparr>]
      else [])"
proof -
  have a: "abs (c_open prev_c - c_close prev_c) = abs (c_close prev_c - c_open prev_c)"
    "abs (c_open curr_c - c_close curr_c) = abs (c_close curr_c - c_open curr_c)"
    by (simp_all only: abs_minus_commute)
  show ?thesis
  proof (cases "c_close prev_c < c_open prev_c \<and> c_close curr_c > c_open curr_c
         \<and> c_close curr_c > c_high prev_c
         \<and> abs (c_close curr_c - c_open curr_c) > abs (c_close prev_c - c_open prev_c) * sf")
    case True
    then show ?thesis
      unfolding ob_body_def Let_def a by (simp add: bullish_ob_def bearish_ob_def)
  next
    case False
    then show ?thesis
      unfolding ob_body_def Let_def a by (simp add: bullish_ob_def bearish_ob_def)
  qed
qed

lemma identify_order_blocks_body_two_bar:
  "identify_order_blocks_body (two_bar t0 t1) (12 / 10) =
     Inr [\<lparr>ob_start_time = t0, ob_end_time = t0, ob_high = 101, ob_low = 99,
           ob_volume = None, ob_is_bullish = True, ob_mitigated_time = None,
           ob_mitigated_by_wick = False\<rparr>]"
  by (simp add: identify_order_blocks_body_def frame_eval two_bar_def ob_body_def bullish_ob_def
      bearish_ob_def upt_rec)

lemma identify_fair_value_gaps_body_short:
  assumes "len df < 3"
  shows "identify_fair_value_gaps_body df = Inr []"
proof (cases "ensure_datetime_index_and_columns df")
  case (Inl e)
  then show ?thesis
    by (auto simp: identify_fair_value_gaps_body_def ensure_datetime_index_and_columns_def
        Let_def split: if_splits)
next
  case (Inr d)
  then have "len d < 3" using assms by (simp add: ensure_len)
  with Inr show ?thesis by (simp add: identify_fair_value_gaps_body_def)
qed

lemma identify_fair_value_gaps_body_examples:
  "identify_fair_value_gaps_body (two_bar t0 t1) = Inr []"
  "identify_fair_value_gaps_body three_bar =
     Inr [\<lparr>fvg_start_time = 10, fvg_end_time = 30, fvg_high = 110, fvg_low = 108,
           fvg_is_bullish = True, fvg_filled_time = None,
           fvg_partially_filled_level = None\<rparr>]"
  by (simp_all add: identify_fair_value_gaps_body_def frame_eval two_bar_def three_bar_def
      fvg_body_def upt_rec)

subsection \<open>The import of the module\<close>

lemma dataclass_accepts:
  "dataclass Candle_fields = Inr ()"
  "dataclass MarketStructurePoint_fields = Inr ()"
  "dataclass FairValueGap_fields = Inr ()"
  "dataclass LiquidityPoint_fields = Inr ()"
  by (simp_all add: dataclass_def Candle_fields_def MarketStructurePoint_fields_def
      FairValueGap_fields_def LiquidityPoint_fields_def)

lemma dataclass_OrderBlock:
  "dataclass OrderBlock_fields =
     Inl (TypeError ''non-default argument is_bullish follows default argument'')"
  by (simp add: dataclass_def OrderBlock_fields_def)

lemma import_smc_concepts_raises:
  "import_smc_concepts =
     Inl (TypeError ''non-default argument is_bullish follows default argument'')"
  by (simp add: import_smc_concepts_def dataclass_accepts dataclass_OrderBlock)


text \<open>
  C3 at its failing input, the two bars of the claim with strength factor 1.2. The claim
  has \<open>identify_order_blocks\<close> return exactly one bullish block with high 101 and low
  99. The class statement of \<open>OrderBlock\<close> raises \<open>TypeError\<close>, so the import of the
  module raises and the call returns no list: it raises that error.
\<close>

theorem C3_order_blocks_import_raises:
  "dataclass OrderBlock_fields =
     Inl (TypeError ''non-default argument is_bullish follows default argument'')
   \<and> identify_order_blocks (two_bar 0 1) (12 / 10) =
       Inl (TypeError ''non-default argument is_bullish follows default argument'')"
  by (simp add: identify_order_blocks_def import_smc_concepts_raises dataclass_OrderBlock)

text \<open>
  C4 at failing inputs: the two-bar series, for which the claim has
  \<open>identify_fair_value_gaps\<close> return the empty list, and the three bars with the gap
  between 110 and 108, for which it has one bullish gap returned. The function is
  defined in the module whose import raises \<open>TypeError\<close> at the class statement of
  \<open>OrderBlock\<close>, above it in the file: both calls raise that error.
\<close>

theorem C4_fair_value_gaps_import_raises:
  "len (two_bar 0 1) < 3
   \<and> identify_fair_value_gaps (two_bar 0 1) =
       Inl (TypeError ''non-default argument is_bullish follows default argument'')
   \<and> identify_fair_value_gaps three_bar =
       Inl (TypeError ''non-default argument is_bullish follows default argument'')"
  by (simp add: identify_fair_value_gaps_def import_smc_concepts_raises len_def two_bar_def)

section \<open>The simulation engine\<close>

lemmas run_eval =
  run_def run_bar_def process_bar_def pre_trade_def post_trade_def
  buy_signal_def sell_signal_def cover_short_def open_long_def close_long_def open_short_def
  get_execution_price_def calculate_commission_def series_item_def series_get_def
  columns_def len_def Let_def upt_rec unset_row_def Backtester_init_def lower_def
  lower_char_def calculate_performance_metrics_def example_backtester_def fixed_signals_def

text \<open>The example objects are what the constructor builds.\<close>

lemma example_backtester_init:
  "Backtester_init bars3 (fixed_signals sigs) capital 2 1 1 ''close'' =
     Inr (example_backtester bars3 sigs capital ''close'')"
  "Backtester_init bars3 (fixed_signals sigs) capital 2 1 1 ''next_open'' =
     Inr (example_backtester bars3 sigs capital ''next_open'')"
  "Backtester_init one_bar (fixed_signals sigs) capital 2 1 1 ''next_open'' =
     Inr (example_backtester one_bar sigs capital ''next_open'')"
  by (simp_all add: Backtester_init_def example_backtester_def bars3_def one_bar_def
      columns_def len_def lower_def lower_char_def)

subsection \<open>The snapshots leave the engine alone\<close>

lemma pre_trade_engine [simp]:
  "current_cash (pre_trade self i c) = current_cash self"
  "current_position_qty (pre_trade self i c) = current_position_qty self"
  "avg_entry_price (pre_trade self i c) = avg_entry_price self"
  "trade_log (pre_trade self i c) = trade_log self"
  "default_position_size (pre_trade self i c) = default_position_size self"
  "commission_rate (pre_trade self i c) = commission_rate self"
  by (simp_all add: pre_trade_def Let_def)

lemma post_trade_engine [simp]:
  "current_cash (post_trade self i c p) = current_cash self"
  "current_position_qty (post_trade self i c p) = current_position_qty self"
  "avg_entry_price (post_trade self i c p) = avg_entry_price self"
  "trade_log (post_trade self i c p) = trade_log self"
  "default_position_size (post_trade self i c p) = default_position_size self"
  "commission_rate (post_trade self i c p) = commission_rate self"
  by (simp_all add: post_trade_def Let_def)

lemma cover_short_qty [simp]:
  "current_position_qty (fst (cover_short self ts px)) = 0"
  "default_position_size (fst (cover_short self ts px)) = default_position_size self"
  by (simp_all add: cover_short_def Let_def)

lemma close_long_qty [simp]:
  "current_position_qty (fst (close_long self ts px)) = 0"
  "default_position_size (fst (close_long self ts px)) = default_position_size self"
  by (simp_all add: close_long_def Let_def)

lemma buy_signal_eq:
  "buy_signal self ts px c =
     (if current_position_qty self < 0
      then (open_long (fst (cover_short self ts px)) ts px c, snd (cover_short self ts px))
      else if current_position_qty self = 0 then (open_long self ts px c, 0)
      else (self, 0))"
  by (simp add: buy_signal_def case_prod_beta)

lemma sell_signal_eq:
  "sell_signal self ts px c =
     (if current_position_qty self > 0
      then (open_short (fst (close_long self ts px)) ts px c, snd (close_long self ts px))
      else if current_position_qty self = 0 then (open_short self ts px c, 0)
      else (self, 0))"
  by (simp add: sell_signal_def case_prod_beta)

lemma process_bar_Some:
  "process_bar self i ts sg c (Some px) =
     (if sg = ''buy''
      then post_trade (fst (buy_signal (pre_trade self i c) ts px c)) i c
             (snd (buy_signal (pre_trade self i c) ts px c))
      else if sg = ''sell''
      then post_trade (fst (sell_signal (pre_trade self i c) ts px c)) i c
             (snd (sell_signal (pre_trade self i c) ts px c))
      else post_trade (pre_trade self i c) i c 0)"
  by (simp add: process_bar_def Let_def case_prod_beta)

lemma process_bar_None: "process_bar self i ts sg c None = pre_trade self i c"
  by (simp add: process_bar_def)

lemma run_bar_Inr:
  "run_bar self i = Inr self' \<Longrightarrow> \<exists>ts sg c px. self' = process_bar self i ts sg c px"
  by (auto simp: run_bar_def Let_def split: sum.splits)

lemma open_long_insufficient:
  assumes "current_cash self <
            default_position_size self * px
              + calculate_commission self (default_position_size self * px)"
  shows "open_long self ts px c = self"
  using assms by (simp add: open_long_def Let_def)

lemma buy_signal_pre_trade:
  "fst (buy_signal (pre_trade self i c) ts px c) =
     (fst (buy_signal self ts px c))\<lparr>positions_df := positions_df (pre_trade self i c)\<rparr>"
  by (simp add: buy_signal_eq cover_short_def open_long_def pre_trade_def
      calculate_commission_def Let_def)

subsection \<open>A long entry without the funds\<close>

text \<open>
  C5: on a buy signal, let \<open>self1\<close> be the engine after the cover of a short position, if
  there was one. When \<open>self1\<close> is flat and its cash is below trade value plus commission of
  the opening trade, the opening leg changes nothing: \<open>open_long\<close> returns \<open>self1\<close>
  itself, and after the whole bar the trade log, the cash, the position quantity and the
  average entry price are those of \<open>self1\<close>. The functions are total: nothing is raised.
\<close>

theorem C5_insufficient_funds_no_op:
  assumes s1: "self1 = (if current_position_qty self < 0
                        then fst (cover_short self ts px) else self)"
    and flat: "current_position_qty self1 = 0"
    and short_of_cash: "current_cash self1 <
            default_position_size self1 * px
              + calculate_commission self1 (default_position_size self1 * px)"
  shows "open_long self1 ts px c = self1
     \<and> fst (buy_signal self ts px c) = self1
     \<and> trade_log (process_bar self i ts ''buy'' c (Some px)) = trade_log self1
     \<and> current_cash (process_bar self i ts ''buy'' c (Some px)) = current_cash self1
     \<and> current_position_qty (process_bar self i ts ''buy'' c (Some px)) =
         current_position_qty self1
     \<and> avg_entry_price (process_bar self i ts ''buy'' c (Some px)) = avg_entry_price self1"
proof -
  have ol: "open_long self1 ts px c = self1"
    using short_of_cash by (rule open_long_insufficient)
  have b: "fst (buy_signal self ts px c) = self1"
  proof (cases "current_position_qty self < 0")
    case True
    with s1 ol show ?thesis by (simp add: buy_signal_eq)
  next
    case False
    with s1 flat ol show ?thesis by (simp add: buy_signal_eq)
  qed
  show ?thesis
    using ol b by (simp add: process_bar_Some buy_signal_pre_trade)
qed

theorem C5_insufficient_funds_no_op_witness:
  "current_position_qty (example_backtester bars3 [''buy'', ''hold'', ''hold''] 50 ''close'') = 0
   \<and> current_cash (example_backtester bars3 [''buy'', ''hold'', ''hold''] 50 ''close'') <
       default_position_size (example_backtester bars3 [''buy'', ''hold'', ''hold''] 50 ''close'')
         * (101 * (1 + 1 / 10000))
       + calculate_commission (example_backtester bars3 [''buy'', ''hold'', ''hold''] 50 ''close'')
           (default_position_size
              (example_backtester bars3 [''buy'', ''hold'', ''hold''] 50 ''close'')
            * (101 * (1 + 1 / 10000)))
   \<and> fst (buy_signal (example_backtester bars3 [''buy'', ''hold'', ''hold''] 50 ''close'') 1
            (101 * (1 + 1 / 10000)) 101)
       = example_backtester bars3 [''buy'', ''hold'', ''hold''] 50 ''close''
   \<and> trade_log (process_bar (example_backtester bars3 [''buy'', ''hold'', ''hold''] 50 ''close'')
        0 1 ''buy'' 101 (Some (101 * (1 + 1 / 10000)))) = []
   \<and> current_cash (process_bar (example_backtester bars3 [''buy'', ''hold'', ''hold''] 50 ''close'')
        0 1 ''buy'' 101 (Some (101 * (1 + 1 / 10000)))) = 50"
proof -
  let ?bt = "example_backtester bars3 [''buy'', ''hold'', ''hold''] 50 ''close''"
  have h1: "?bt = (if current_position_qty ?bt < 0
                   then fst (cover_short ?bt 1 (101 * (1 + 1 / 10000))) else ?bt)"
    by (simp add: example_backtester_def)
  have h2: "current_position_qty ?bt = 0"
    by (simp add: example_backtester_def)
  have h3: "current_cash ?bt <
       default_position_size ?bt * (101 * (1 + 1 / 10000))
       + calculate_commission ?bt (default_position_size ?bt * (101 * (1 + 1 / 10000)))"
    by (simp add: example_backtester_def calculate_commission_def)
  have v: "trade_log ?bt = []" "current_cash ?bt = 50"
    by (simp_all add: example_backtester_def)
  show ?thesis
    using h2 h3 v C5_insufficient_funds_no_op [OF h1 h2 h3, of 101 0] by simp
qed

subsection \<open>next\_open on the last bar\<close>

text \<open>
  C6: under \<open>next_open\<close>, on the last bar of the series, \<open>_get_execution_price\<close> returns
  \<open>None\<close> for every signal, and the pass of the loop returns with the trade log, the
  position quantity, the average entry price and the cash unchanged.
\<close>

theorem C6_next_open_last_bar:
  assumes "execution_price_type self = ''next_open''"
    and "i + 1 = len (ohlcv_data self)"
    and "''close'' \<in> set (columns (ohlcv_data self))"
  shows "get_execution_price self i sg = Inr None
     \<and> (\<exists>self'. run_bar self i = Inr self'
          \<and> trade_log self' = trade_log self
          \<and> current_position_qty self' = current_position_qty self
          \<and> avg_entry_price self' = avg_entry_price self
          \<and> current_cash self' = current_cash self)"
proof -
  have g: "\<And>s. get_execution_price self i s = Inr None"
    using assms(1,2) by (simp add: get_execution_price_def Let_def)
  from assms(3) obtain c where c: "series_item (ohlcv_data self) i ''close'' = Inr c"
    using series_item_present by blast
  show ?thesis
    by (simp add: g run_bar_def Let_def c process_bar_None)
qed

theorem C6_next_open_last_bar_witness:
  "execution_price_type (example_backtester bars3 [''hold'', ''hold'', ''buy''] 100000 ''next_open'')
     = ''next_open''
   \<and> 2 + 1 = len (ohlcv_data
        (example_backtester bars3 [''hold'', ''hold'', ''buy''] 100000 ''next_open''))
   \<and> get_execution_price
        (example_backtester bars3 [''hold'', ''hold'', ''buy''] 100000 ''next_open'') 2 ''buy''
       = Inr None
   \<and> (\<exists>self'. run_bar
         (example_backtester bars3 [''hold'', ''hold'', ''buy''] 100000 ''next_open'') 2
           = Inr self'
        \<and> trade_log self' = [] \<and> current_position_qty self' = 0
        \<and> avg_entry_price self' = 0 \<and> current_cash self' = 100000)"
proof -
  let ?bt = "example_backtester bars3 [''hold'', ''hold'', ''buy''] 100000 ''next_open''"
  have h1: "execution_price_type ?bt = ''next_open''"
    by (simp add: example_backtester_def)
  have h2: "2 + 1 = len (ohlcv_data ?bt)"
    by (simp add: example_backtester_def bars3_def len_def)
  have h3: "''close'' \<in> set (columns (ohlcv_data ?bt))"
    by (simp add: example_backtester_def bars3_def columns_def)
  have v: "trade_log ?bt = []" "current_position_qty ?bt = 0" "avg_entry_price ?bt = 0"
    "current_cash ?bt = 100000"
    by (simp_all add: example_backtester_def)
  show ?thesis
    using h1 h2 v C6_next_open_last_bar [OF h1 h2 h3, of "''buy''"] by simp
qed

subsection \<open>The wrong number of signals\<close>

text \<open>
  C8: when the strategy returns a list whose length differs from the number of bars,
  \<open>run\<close> raises \<open>ValueError\<close> at its start, before it processes any bar: the raise
  leaves the object exactly as it was before the call, so no row of \<open>positions_df\<close> has
  been written, no trade executed, and the cash and the position are untouched. The
  list is neither cut nor padded to run the loop.
\<close>

theorem C8_signal_count_mismatch:
  assumes "strategy self (ohlcv_data self) = Inr signals"
    and "length signals \<noteq> len (ohlcv_data self)"
  shows "run self =
           Inl (ValueError ''Number of signals must match number of data points.'', self)"
  using assms by (simp add: run_def)

theorem C8_signal_count_mismatch_witness:
  "strategy (example_backtester bars3 [''buy'', ''sell''] 100000 ''close'')
       (ohlcv_data (example_backtester bars3 [''buy'', ''sell''] 100000 ''close''))
     = Inr [''buy'', ''sell'']
   \<and> length [''buy'', ''sell''] \<noteq>
        len (ohlcv_data (example_backtester bars3 [''buy'', ''sell''] 100000 ''close''))
   \<and> run (example_backtester bars3 [''buy'', ''sell''] 100000 ''close'') =
        Inl (ValueError ''Number of signals must match number of data points.'',
             example_backtester bars3 [''buy'', ''sell''] 100000 ''close'')
   \<and> trade_log (example_backtester bars3 [''buy'', ''sell''] 100000 ''close'') = []
   \<and> positions_df (example_backtester bars3 [''buy'', ''sell''] 100000 ''close'') =
        [unset_row, unset_row, unset_row]
   \<and> length [''buy'', ''sell'', ''sell'', ''buy''] \<noteq>
        len (ohlcv_data
          (example_backtester bars3 [''buy'', ''sell'', ''sell'', ''buy''] 100000 ''close''))
   \<and> run (example_backtester bars3 [''buy'', ''sell'', ''sell'', ''buy''] 100000 ''close'') =
        Inl (ValueError ''Number of signals must match number of data points.'',
             example_backtester bars3 [''buy'', ''sell'', ''sell'', ''buy''] 100000 ''close'')"
proof -
  let ?bt = "example_backtester bars3 [''buy'', ''sell''] 100000 ''close''"
  let ?bt4 = "example_backtester bars3 [''buy'', ''sell'', ''sell'', ''buy''] 100000 ''close''"
  have h1: "strategy ?bt (ohlcv_data ?bt) = Inr [''buy'', ''sell'']"
    by (simp add: example_backtester_def fixed_signals_def)
  have h2: "length [''buy'', ''sell''] \<noteq> len (ohlcv_data ?bt)"
    by (simp add: example_backtester_def bars3_def len_def)
  have g1: "strategy ?bt4 (ohlcv_data ?bt4) = Inr [''buy'', ''sell'', ''sell'', ''buy'']"
    by (simp add: example_backtester_def fixed_signals_def)
  have g2: "length [''buy'', ''sell'', ''sell'', ''buy''] \<noteq> len (ohlcv_data ?bt4)"
    by (simp add: example_backtester_def bars3_def len_def)
  have v: "trade_log ?bt = []" "positions_df ?bt = [unset_row, unset_row, unset_row]"
    by (simp_all add: example_backtester_def bars3_def len_def numeral_3_eq_3)
  show ?thesis
    using h1 h2 g2 v C8_signal_count_mismatch [OF h1 h2] C8_signal_count_mismatch [OF g1 g2]
    by simp
qed

subsection \<open>The position quantity\<close>

lemma open_long_qty:
  "default_position_size (open_long self ts px c) = default_position_size self"
  "current_position_qty self = 0 \<Longrightarrow>
     current_position_qty (open_long self ts px c) = 0 \<or>
     current_position_qty (open_long self ts px c) = default_position_size self"
  by (simp_all add: open_long_def Let_def)

lemma open_short_qty:
  "default_position_size (open_short self ts px c) = default_position_size self"
  "current_position_qty self = 0 \<Longrightarrow>
     current_position_qty (open_short self ts px c) = - default_position_size self"
  by (simp_all add: open_short_def Let_def)

lemma buy_signal_size [simp]:
  "default_position_size (fst (buy_signal self ts px c)) = default_position_size self"
  by (simp add: buy_signal_eq open_long_qty)

lemma sell_signal_size [simp]:
  "default_position_size (fst (sell_signal self ts px c)) = default_position_size self"
  by (simp add: sell_signal_eq open_short_qty)

lemma buy_signal_long:
  "current_position_qty self > 0 \<Longrightarrow> fst (buy_signal self ts px c) = self"
  by (simp add: buy_signal_eq)

lemma buy_signal_qty:
  assumes "\<not> current_position_qty self > 0"
  shows "current_position_qty (fst (buy_signal self ts px c)) = 0 \<or>
     current_position_qty (fst (buy_signal self ts px c)) = default_position_size self"
proof (cases "current_position_qty self < 0")
  case True
  then have "fst (buy_signal self ts px c) = open_long (fst (cover_short self ts px)) ts px c"
    by (simp add: buy_signal_eq)
  then show ?thesis
    using open_long_qty(2) [of "fst (cover_short self ts px)" ts px c] by simp
next
  case False
  with assms have z: "current_position_qty self = 0" by simp
  then have "fst (buy_signal self ts px c) = open_long self ts px c"
    by (simp add: buy_signal_eq)
  then show ?thesis using open_long_qty(2) [OF z, of ts px c] by simp
qed

lemma sell_signal_short:
  "current_position_qty self < 0 \<Longrightarrow> fst (sell_signal self ts px c) = self"
  by (simp add: sell_signal_eq)

lemma sell_signal_qty:
  assumes "\<not> current_position_qty self < 0"
  shows "current_position_qty (fst (sell_signal self ts px c)) = - default_position_size self"
proof (cases "current_position_qty self > 0")
  case True
  then have "fst (sell_signal self ts px c) = open_short (fst (close_long self ts px)) ts px c"
    by (simp add: sell_signal_eq)
  then show ?thesis
    using open_short_qty(2) [of "fst (close_long self ts px)" ts px c] by simp
next
  case False
  with assms have z: "current_position_qty self = 0" by simp
  then have "fst (sell_signal self ts px c) = open_short self ts px c"
    by (simp add: sell_signal_eq)
  then show ?thesis using open_short_qty(2) [OF z, of ts px c] by simp
qed

lemma process_bar_size [simp]:
  "default_position_size (process_bar self i ts sg c px) = default_position_size self"
  by (cases px) (simp_all add: process_bar_Some process_bar_None)

lemma process_bar_buy_long:
  "current_position_qty self > 0 \<Longrightarrow>
   current_position_qty (process_bar self i ts ''buy'' c px) = current_position_qty self"
  by (cases px) (simp_all add: process_bar_Some process_bar_None buy_signal_long)

lemma process_bar_sell_short:
  "current_position_qty self < 0 \<Longrightarrow>
   current_position_qty (process_bar self i ts ''sell'' c px) = current_position_qty self"
  by (cases px) (simp_all add: process_bar_Some process_bar_None sell_signal_short)

lemma process_bar_sell_executes:
  "\<not> current_position_qty self < 0 \<Longrightarrow>
   current_position_qty (process_bar self i ts ''sell'' c (Some px)) =
     - default_position_size self"
  using sell_signal_qty [of "pre_trade self i c" ts px c]
  by (simp add: process_bar_Some)

lemma process_bar_qty:
  assumes "current_position_qty self \<in>
             {- default_position_size self, 0, default_position_size self}"
  shows "current_position_qty (process_bar self i ts sg c px) \<in>
             {- default_position_size self, 0, default_position_size self}"
proof (cases px)
  case None
  with assms show ?thesis by (simp add: process_bar_None)
next
  case (Some p)
  show ?thesis
  proof (cases "sg = ''buy''")
    case True
    show ?thesis
    proof (cases "current_position_qty self > 0")
      case True
      with assms \<open>sg = ''buy''\<close> show ?thesis
        by (simp add: Some process_bar_Some buy_signal_long)
    next
      case False
      then show ?thesis
        using buy_signal_qty [of "pre_trade self i c" ts p c] \<open>sg = ''buy''\<close>
        by (auto simp: Some process_bar_Some)
    qed
  next
    case nb: False
    show ?thesis
    proof (cases "sg = ''sell''")
      case True
      show ?thesis
      proof (cases "current_position_qty self < 0")
        case True
        with assms \<open>sg = ''sell''\<close> show ?thesis
          by (simp add: Some process_bar_Some sell_signal_short)
      next
        case False
        then show ?thesis
          using sell_signal_qty [of "pre_trade self i c" ts p c] \<open>sg = ''sell''\<close>
          by (auto simp: Some process_bar_Some)
      qed
    next
      case False
      with nb assms show ?thesis
        by (simp add: Some process_bar_Some)
    qed
  qed
qed

lemma run_loop_qty:
  "run_loop self js = Inr self' \<Longrightarrow>
   current_position_qty self \<in> {- default_position_size self, 0, default_position_size self} \<Longrightarrow>
   current_position_qty self' \<in> {- default_position_size self, 0, default_position_size self}
   \<and> default_position_size self' = default_position_size self"
proof (induction js arbitrary: self)
  case Nil
  then show ?case by simp
next
  case (Cons i js)
  from Cons.prems(1) obtain s where s: "run_bar self i = Inr s" "run_loop s js = Inr self'"
    by (auto split: sum.splits)
  from run_bar_Inr [OF s(1)] obtain ts sg c px where p: "s = process_bar self i ts sg c px"
    by blast
  have "current_position_qty s \<in> {- default_position_size s, 0, default_position_size s}"
    using process_bar_qty [OF Cons.prems(2), of i ts sg c px] by (simp add: p)
  with Cons.IH [OF s(2)] show ?case by (simp add: p)
qed

lemma run_qty:
  assumes "run self = Inr (self', m)" and "current_position_qty self = 0"
  shows "current_position_qty self' \<in>
           {- default_position_size self, 0, default_position_size self}"
proof -
  from assms(1) obtain sigs s1 where
    l: "run_loop s1 [0..<len (ohlcv_data self)] = Inr self'"
    and q: "current_position_qty s1 = current_position_qty self"
      "default_position_size s1 = default_position_size self"
    by (auto simp: run_def Let_def split: sum.splits if_splits)
  from run_loop_qty [OF l] q assms(2) show ?thesis by simp
qed

text \<open>
  C10: from a flat engine, after any sequence of passes of the loop that returns, and
  after a whole \<open>run\<close>, the position quantity is one of \<open>- default_position_size\<close>, \<open>0\<close>,
  \<open>default_position_size\<close>. A buy while long and a sell while short leave the quantity
  as it is, and a sell that executes (an execution price exists and the engine is not
  short) leaves it at \<open>- default_position_size\<close>.
\<close>

theorem C10_position_size:
  "(run_loop self js = Inr self' \<and> current_position_qty self = 0 \<longrightarrow>
      current_position_qty self' \<in>
        {- default_position_size self, 0, default_position_size self})
   \<and> (run self = Inr (self'', m) \<and> current_position_qty self = 0 \<longrightarrow>
      current_position_qty self'' \<in>
        {- default_position_size self, 0, default_position_size self})
   \<and> (current_position_qty self > 0 \<longrightarrow>
      current_position_qty (process_bar self i ts ''buy'' c px) = current_position_qty self)
   \<and> (current_position_qty self < 0 \<longrightarrow>
      current_position_qty (process_bar self i ts ''sell'' c px) = current_position_qty self)
   \<and> (0 \<le> current_position_qty self \<longrightarrow>
      current_position_qty (process_bar self i ts ''sell'' c (Some p)) =
        - default_position_size self)"
  using run_loop_qty [of self js self'] run_qty [of self self'' m]
    process_bar_buy_long [of self i ts c px] process_bar_sell_short [of self i ts c px]
    process_bar_sell_executes [of self i ts c p]
  by (simp add: not_less)

lemma example_run_qty:
  "\<exists>s m. run (example_backtester bars3 [''buy'', ''sell'', ''sell''] 100000 ''close'') = Inr (s, m)
     \<and> current_position_qty s = - 1 \<and> length (trade_log s) = 3"
  by (simp add: run_eval bars3_def)

theorem C10_position_size_witness:
  "current_position_qty (example_backtester bars3 [''buy'', ''sell'', ''sell''] 100000 ''close'') = 0
   \<and> (\<exists>s m. run (example_backtester bars3 [''buy'', ''sell'', ''sell''] 100000 ''close'')
              = Inr (s, m)
        \<and> current_position_qty s = - 1
        \<and> current_position_qty s \<in> {- 1, 0, 1})
   \<and> current_position_qty
        (process_bar
           ((example_backtester bars3 [] 100000 ''close'')\<lparr>current_position_qty := 1\<rparr>)
           1 2 ''buy'' 102 (Some 102)) = 1
   \<and> current_position_qty
        (process_bar
           ((example_backtester bars3 [] 100000 ''close'')\<lparr>current_position_qty := - 1\<rparr>)
           1 2 ''sell'' 102 (Some 102)) = - 1
   \<and> current_position_qty
        (process_bar
           ((example_backtester bars3 [] 100000 ''close'')\<lparr>current_position_qty := 1\<rparr>)
           1 2 ''sell'' 102 (Some 102)) = - 1"
proof -
  let ?bt = "example_backtester bars3 [''buy'', ''sell'', ''sell''] 100000 ''close''"
  let ?long = "(example_backtester bars3 [] 100000 ''close'')\<lparr>current_position_qty := 1\<rparr>"
  let ?short = "(example_backtester bars3 [] 100000 ''close'')\<lparr>current_position_qty := - 1\<rparr>"
  have h: "current_position_qty ?bt = 0" "default_position_size ?bt = 1"
    by (simp_all add: example_backtester_def)
  from example_run_qty obtain s m where r: "run ?bt = Inr (s, m)"
    and q: "current_position_qty s = - 1" by blast
  from C10_position_size [of ?bt "[]" ?bt s m] r h
  have a: "current_position_qty s \<in> {- 1, 0, 1}" by simp
  have l: "current_position_qty ?long = 1" "default_position_size ?long = 1"
    "current_position_qty ?short = - 1"
    by (simp_all add: example_backtester_def)
  have b: "current_position_qty (process_bar ?long 1 2 ''buy'' 102 (Some 102)) = 1"
    using C10_position_size [where self = ?long and i = 1 and ts = 2 and c = 102
        and px = "Some 102"] l by simp
  have c: "current_position_qty (process_bar ?short 1 2 ''sell'' 102 (Some 102)) = - 1"
    using C10_position_size [where self = ?short and i = 1 and ts = 2 and c = 102
        and px = "Some 102"] l by simp
  have d: "current_position_qty (process_bar ?long 1 2 ''sell'' 102 (Some 102)) = - 1"
    using C10_position_size [where self = ?long and i = 1 and ts = 2 and c = 102
        and p = 102] l by simp
  from h r q a b c d show ?thesis by blast
qed

section \<open>The strategies\<close>

lemmas strategy_eval =
  ExampleStrategy1_generate_signals_body_def ExampleStrategy2_generate_signals_body_def
  ob_pass_def select_ob_def ob_enter_long_def ob_enter_short_def ob_exit_long_def
  ob_exit_short_def low_then_high_def high_then_low_def
  fvg_pass_def select_fvg_def fvg_enter_long_def fvg_enter_short_def fvg_exit_long_def
  fvg_exit_short_def mark_filled_def filled_def
  identify_order_blocks_body_def identify_fair_value_gaps_body_def frame_eval ob_body_def
  bullish_ob_def bearish_ob_def fvg_body_def upt_rec Let_def

text \<open>
  The bodies of the strategies at work. The order-block strategy buys on the very bar
  that forms the block, since the block is known from its own start time on; the gap
  strategy buys on the bar after the gap whose low dips into the zone. On a series below
  the minimum length both return the holds at once.
\<close>

lemma ExampleStrategy1_body_two_bar:
  "ExampleStrategy1_generate_signals_body (two_bar 0 1) = Inr [''buy'', ''hold'']"
  by (simp add: strategy_eval two_bar_def)

lemma ExampleStrategy2_body_four_bar:
  "ExampleStrategy2_generate_signals_body (1 / 10) four_bar =
     Inr [''hold'', ''hold'', ''hold'', ''buy'']"
  by (simp add: strategy_eval four_bar_def)

lemma generate_signals_body_short:
  "len df < 2 \<Longrightarrow>
     ExampleStrategy1_generate_signals_body df = Inr (replicate (len df) ''hold'')"
  "len df < 3 \<Longrightarrow>
     ExampleStrategy2_generate_signals_body r df = Inr (replicate (len df) ''hold'')"
  by (simp_all add: ExampleStrategy1_generate_signals_body_def
      ExampleStrategy2_generate_signals_body_def)


section \<open>The metrics\<close>


lemma length_running_max [simp]: "length (running_max m vs) = length vs"
  by (induction vs arbitrary: m) simp_all

lemma length_expanding_max [simp]: "length (expanding_max vs) = length vs"
  by (cases vs) simp_all

lemma running_max_zip:
  "(v, p) \<in> set (zip vs (running_max m vs)) \<Longrightarrow> v \<le> p \<and> m \<le> p"
proof (induction vs arbitrary: m)
  case Nil
  then show ?case by simp
next
  case (Cons a vs)
  from Cons.prems have "(v = a \<and> p = max m a) \<or> (v, p) \<in> set (zip vs (running_max (max m a) vs))"
    by simp
  then show ?case
  proof
    assume "v = a \<and> p = max m a"
    then show ?thesis by simp
  next
    assume "(v, p) \<in> set (zip vs (running_max (max m a) vs))"
    from Cons.IH [OF this] show ?thesis by simp
  qed
qed

lemma expanding_max_zip:
  assumes "(v, p) \<in> set (zip vs (expanding_max vs))"
  shows "v \<le> p \<and> hd vs \<le> p"
proof (cases vs)
  case Nil
  with assms show ?thesis by simp
next
  case (Cons a ws)
  with assms have "(v = a \<and> p = a) \<or> (v, p) \<in> set (zip ws (running_max a ws))"
    by simp
  then show ?thesis
    using running_max_zip [of v p ws a] Cons by auto
qed

lemma drawdown_nonpositive:
  assumes "0 < hd vs" and "d \<in> set (drawdown vs)"
  shows "\<exists>r. d = Num r \<and> r \<le> 0"
proof -
  from assms(2) obtain v p where vp: "(v, p) \<in> set (zip vs (expanding_max vs))"
    and d: "d = fdiv (v - p) p"
    by (auto simp: drawdown_def)
  from expanding_max_zip [OF vp] assms(1) have "v \<le> p" "0 < p" by simp_all
  then have "(v - p) / p \<le> 0" by (simp add: divide_le_0_iff)
  with \<open>0 < p\<close> d show ?thesis by (simp add: fdiv_def)
qed

lemma running_max_increasing:
  "sorted_wrt (<) vs \<Longrightarrow> (\<And>v. v \<in> set vs \<Longrightarrow> m \<le> v) \<Longrightarrow> running_max m vs = vs"
proof (induction vs arbitrary: m)
  case Nil
  then show ?case by simp
next
  case (Cons a vs)
  have ma: "max m a = a" using Cons.prems(2) [of a] by simp
  have "running_max a vs = vs"
    using Cons.prems(1) by (intro Cons.IH) auto
  with ma show ?case by simp
qed

lemma expanding_max_increasing:
  "sorted_wrt (<) vs \<Longrightarrow> expanding_max vs = vs"
proof (cases vs)
  case Nil
  then show ?thesis by simp
next
  case (Cons a ws)
  assume "sorted_wrt (<) vs"
  with Cons have "sorted_wrt (<) ws" "\<And>v. v \<in> set ws \<Longrightarrow> a \<le> v"
    by auto
  then have "running_max a ws = ws" by (rule running_max_increasing)
  with Cons show ?thesis by simp
qed

lemma foldl_fmin_zero: "foldl fmin (Num 0) (replicate n (Num 0)) = Num 0"
  by (induction n) simp_all

lemma expanding_max_nth:
  assumes "i < length vs"
  shows "vs ! i \<le> expanding_max vs ! i"
proof -
  from assms have "(vs ! i, expanding_max vs ! i) \<in> set (zip vs (expanding_max vs))"
    by (auto simp: set_zip)
  from expanding_max_zip [OF this] show ?thesis by simp
qed

lemma drawdown_nth:
  assumes "i < length vs"
  shows "drawdown vs ! i = fdiv (vs ! i - expanding_max vs ! i) (expanding_max vs ! i)"
  using assms by (simp add: drawdown_def)

lemma fdiv_le_zero:
  assumes "v \<le> p" and "p \<noteq> 0 \<or> v \<noteq> 0"
  shows "le_zero (fdiv (v - p) p) \<longleftrightarrow> \<not> (p < 0 \<and> v < p)"
proof (cases "p = 0")
  case True
  with assms have "v < 0" by simp
  with True show ?thesis by (simp add: fdiv_def)
next
  case False
  show ?thesis
  proof (cases "0 < p")
    case True
    with assms(1) have "(v - p) / p \<le> 0" by (simp add: divide_le_0_iff)
    with True False show ?thesis by (simp add: fdiv_def)
  next
    case np: False
    with False have n: "p < 0" by simp
    have "(v - p) / p \<le> 0 \<longleftrightarrow> v = p"
      using n assms(1) by (auto simp: divide_le_0_iff)
    with n False assms(1) show ?thesis by (auto simp: fdiv_def)
  qed
qed

lemma drawdown_element_sign:
  assumes "i < length vs" and "expanding_max vs ! i \<noteq> 0 \<or> vs ! i \<noteq> 0"
  shows "le_zero (drawdown vs ! i) \<longleftrightarrow>
           \<not> (expanding_max vs ! i < 0 \<and> vs ! i < expanding_max vs ! i)"
  using fdiv_le_zero [OF expanding_max_nth [OF assms(1)] assms(2)]
  by (simp add: drawdown_nth [OF assms(1)])

lemma running_max_zero_le_zero:
  "\<exists>v \<in> set vs. v \<noteq> 0 \<Longrightarrow>
   \<exists>d \<in> set (map (\<lambda>(v, p). fdiv (v - p) p) (zip vs (running_max 0 vs))). le_zero d"
proof (induction vs)
  case Nil
  then show ?case by simp
next
  case (Cons a vs)
  show ?case
  proof (cases "a = 0")
    case True
    with Cons.prems have "\<exists>v \<in> set vs. v \<noteq> 0" by simp
    from Cons.IH [OF this] True show ?thesis by simp
  next
    case False
    show ?thesis
    proof (cases "a < 0")
      case True
      then have "max 0 a = 0" by simp
      with True show ?thesis by (simp add: fdiv_def)
    next
      case nn: False
      with False have "max 0 a = a" by simp
      with False show ?thesis by (simp add: fdiv_def)
    qed
  qed
qed

lemma drawdown_has_le_zero:
  assumes "\<exists>v \<in> set vs. v \<noteq> 0"
  shows "\<exists>d \<in> set (drawdown vs). le_zero d"
proof (cases vs)
  case Nil
  with assms show ?thesis by simp
next
  case (Cons a ws)
  show ?thesis
  proof (cases "a = 0")
    case True
    with assms Cons have "\<exists>v \<in> set ws. v \<noteq> 0" by simp
    from running_max_zero_le_zero [OF this] True Cons show ?thesis
      by (simp add: drawdown_def)
  next
    case False
    with Cons show ?thesis by (simp add: drawdown_def fdiv_def)
  qed
qed

lemma fmin_le_zero:
  "x \<noteq> NaN \<Longrightarrow> y \<noteq> NaN \<Longrightarrow> le_zero x \<or> le_zero y \<Longrightarrow> le_zero (fmin x y)"
  by (cases x; cases y) auto

lemma fmin_not_NaN: "x \<noteq> NaN \<Longrightarrow> y \<noteq> NaN \<Longrightarrow> fmin x y \<noteq> NaN"
  by (cases x; cases y) auto

lemma foldl_fmin_le_zero:
  "y \<noteq> NaN \<Longrightarrow> (\<And>x. x \<in> set ys \<Longrightarrow> x \<noteq> NaN) \<Longrightarrow>
   le_zero y \<or> (\<exists>x \<in> set ys. le_zero x) \<Longrightarrow> le_zero (foldl fmin y ys)"
proof (induction ys arbitrary: y)
  case Nil
  then show ?case by simp
next
  case (Cons a ys)
  have a: "a \<noteq> NaN" using Cons.prems(2) by simp
  have n: "fmin y a \<noteq> NaN" using Cons.prems(1) a by (rule fmin_not_NaN)
  have "le_zero (fmin y a) \<or> (\<exists>x \<in> set ys. le_zero x)"
    using Cons.prems(3) fmin_le_zero [OF Cons.prems(1) a] by auto
  with Cons.IH [OF n] Cons.prems(2) show ?case by simp
qed

lemma series_min_le_zero:
  assumes "\<exists>d \<in> set ds. le_zero d"
  shows "le_zero (series_min ds)"
proof -
  from assms obtain d where d: "d \<in> set ds" "le_zero d" by blast
  then have "d \<noteq> NaN" by auto
  with d have m: "d \<in> set (filter (\<lambda>x. x \<noteq> NaN) ds)" by simp
  then obtain y ys where f: "filter (\<lambda>x. x \<noteq> NaN) ds = y # ys"
    by (cases "filter (\<lambda>x. x \<noteq> NaN) ds") auto
  have nn: "\<And>x. x \<in> set (y # ys) \<Longrightarrow> x \<noteq> NaN"
  proof -
    fix x assume "x \<in> set (y # ys)"
    then have "x \<in> set (filter (\<lambda>x. x \<noteq> NaN) ds)" by (simp only: f)
    then show "x \<noteq> NaN" by simp
  qed
  have "le_zero y \<or> (\<exists>x \<in> set ys. le_zero x)"
    using m d(2) f by auto
  then have "le_zero (foldl fmin y ys)"
    using nn by (intro foldl_fmin_le_zero) auto
  then show ?thesis by (simp add: series_min_def f)
qed

lemma fscale_le_zero: "0 < k \<Longrightarrow> le_zero x \<Longrightarrow> le_zero (fscale x k)"
  by (cases x) (auto simp: mult_le_0_iff)

lemma max_drawdown_le_zero:
  assumes "\<exists>v \<in> set vs. v \<noteq> 0"
  shows "le_zero (max_drawdown vs)"
  using series_min_le_zero [OF drawdown_has_le_zero [OF assms]]
  by (simp add: max_drawdown_def fscale_le_zero)

lemma filter_zero_quotients:
  "filter (\<lambda>x. x \<noteq> NaN) (map (fdiv 0) vs) =
     replicate (length (filter (\<lambda>v. v \<noteq> 0) vs)) (Num 0)"
  by (induction vs) (simp_all add: fdiv_def)

lemma max_drawdown_increasing_nonzero:
  assumes "sorted_wrt (<) vs" and "\<exists>v \<in> set vs. v \<noteq> 0"
  shows "max_drawdown vs = Num 0"
proof -
  have d: "drawdown vs = map (fdiv 0) vs"
    by (simp add: drawdown_def expanding_max_increasing [OF assms(1)] zip_same_conv_map)
  from assms(2) have "filter (\<lambda>v. v \<noteq> 0) vs \<noteq> []"
    by (auto simp: filter_empty_conv)
  then obtain n where n: "length (filter (\<lambda>v. v \<noteq> 0) vs) = Suc n"
    by (cases "filter (\<lambda>v. v \<noteq> 0) vs") auto
  show ?thesis
    by (simp add: max_drawdown_def series_min_def d filter_zero_quotients n foldl_fmin_zero)
qed


text \<open>
  C9, as the claim states it, fails. A run that sells short at once, with a position large
  against its capital, has a negative portfolio value in every row, so its running peak
  is negative, and the drawdown of the third row is \<open>500 / 499\<close>, above zero. And the
  one-row series \<open>[0]\<close>, strictly increasing, has the drawdown \<open>0 / 0\<close>: the entry
  max\_drawdown\_pct of that run is NaN, not 0.
\<close>

theorem C9_drawdown_sign_counterexample:
  "(case Backtester_init short_bars (fixed_signals [''sell'', ''hold'', ''hold''])
           1 100 0 1000 ''close'' of
      Inl e \<Rightarrow> None
    | Inr bt \<Rightarrow>
        (case run bt of
           Inl e \<Rightarrow> None
         | Inr (bt', m) \<Rightarrow>
             Some (map portfolio_value (positions_df bt'),
                   drawdown (map portfolio_value (positions_df bt')))))
     = Some ([- 999, - 499, - 999], [Num 0, Num 0, Num (500 / 499)])
   \<and> (0 :: real) < 500 / 499
   \<and> (case Backtester_init one_bar (fixed_signals [''hold'']) 0 2 1 1 ''close'' of
      Inl e \<Rightarrow> None
    | Inr bt \<Rightarrow>
        (case run bt of
           Inl e \<Rightarrow> None
         | Inr (bt', m) \<Rightarrow>
             Some (map portfolio_value (positions_df bt'), m_max_drawdown_pct m)))
     = Some ([0], NaN)
   \<and> sorted_wrt (<) [0 :: real]"
  by (simp add: run_eval short_bars_def one_bar_def drawdown_def fdiv_def max_drawdown_def
      series_min_def)

text \<open>
  C9, amended: max\_drawdown\_pct is \<open>max_drawdown\<close> of the portfolio\_value column. In a
  row whose value and running peak are not both 0, the element of the drawdown series is
  at most 0 exactly unless the running peak is negative and the value lies below it; in
  particular every element is a number at most 0 when the first value is positive. For
  every series with a value other than 0, max\_drawdown\_pct is at most 0, and for every
  strictly increasing series with a value other than 0 it is 0. (The series of zeros
  alone, where every element is \<open>0 / 0\<close>, is left aside.)
\<close>

theorem C9_drawdown_sign:
  "m_max_drawdown_pct (calculate_performance_metrics self) =
     max_drawdown (map portfolio_value (positions_df self))
   \<and> (i < length vs \<and> (expanding_max vs ! i \<noteq> 0 \<or> vs ! i \<noteq> 0) \<longrightarrow>
        (le_zero (drawdown vs ! i) \<longleftrightarrow>
           \<not> (expanding_max vs ! i < 0 \<and> vs ! i < expanding_max vs ! i)))
   \<and> (vs \<noteq> [] \<and> 0 < hd vs \<longrightarrow> (\<forall>d \<in> set (drawdown vs). \<exists>r. d = Num r \<and> r \<le> 0))
   \<and> ((\<exists>v \<in> set vs. v \<noteq> 0) \<longrightarrow> le_zero (max_drawdown vs))
   \<and> (sorted_wrt (<) vs \<and> (\<exists>v \<in> set vs. v \<noteq> 0) \<longrightarrow> max_drawdown vs = Num 0)"
  using drawdown_element_sign [of i vs] drawdown_nonpositive [of vs]
    max_drawdown_le_zero [of vs] max_drawdown_increasing_nonzero [of vs]
  by (simp add: calculate_performance_metrics_def Let_def)

lemma drawdown_examples:
  "drawdown [- 999, - 499, - 999] = [Num 0, Num 0, Num (500 / 499)]"
  "expanding_max [- 999, - 499, - 999] = [- 999, - 499, - 499]"
  "drawdown [100, 90, 110] = [Num 0, Num (- (1 / 10)), Num 0]"
  "max_drawdown [- 5, - 7] = Num 0"
  "max_drawdown [0, 1, 2] = Num 0"
  "max_drawdown [- 1, 0, 1] = Num 0"
  by (simp_all add: drawdown_def fdiv_def max_drawdown_def series_min_def)

theorem C9_drawdown_sign_witness:
  "(2 :: nat) < length [- 999, - 499, - 999 :: real]
   \<and> expanding_max [- 999, - 499, - 999] ! 2 = - 499
   \<and> \<not> le_zero (drawdown [- 999, - 499, - 999] ! 2)
   \<and> le_zero (drawdown [- 999, - 499, - 999] ! 1)
   \<and> 0 < hd [100, 90, 110 :: real]
   \<and> drawdown [100, 90, 110] = [Num 0, Num (- (1 / 10)), Num 0]
   \<and> le_zero (max_drawdown [- 5, - 7])
   \<and> sorted_wrt (<) [0, 1, 2 :: real]
   \<and> max_drawdown [0, 1, 2] = Num 0
   \<and> sorted_wrt (<) [- 1, 0, 1 :: real]
   \<and> max_drawdown [- 1, 0, 1] = Num 0"
proof -
  have e: "expanding_max [- 999, - 499, - 999] ! 2 = - 499"
    "expanding_max [- 999, - 499, - 999] ! 1 = - 499"
    by (simp_all add: drawdown_examples(2))
  have a: "\<not> le_zero (drawdown [- 999, - 499, - 999] ! 2)"
    using C9_drawdown_sign [where vs = "[- 999, - 499, - 999]" and i = 2] e by simp
  have b: "le_zero (drawdown [- 999, - 499, - 999] ! 1)"
    using C9_drawdown_sign [where vs = "[- 999, - 499, - 999]" and i = 1] e by simp
  have c: "\<forall>d \<in> set (drawdown [100, 90, 110]). \<exists>r. d = Num r \<and> r \<le> 0"
    using C9_drawdown_sign [where vs = "[100, 90, 110]"] by simp
  have d: "le_zero (max_drawdown [- 5, - 7])"
    using C9_drawdown_sign [where vs = "[- 5, - 7]"] by simp
  have f: "max_drawdown [0, 1, 2] = Num 0"
    using C9_drawdown_sign [where vs = "[0, 1, 2]"] by simp
  have g: "max_drawdown [- 1, 0, 1] = Num 0"
    using C9_drawdown_sign [where vs = "[- 1, 0, 1]"] by simp
  show ?thesis
    using e a b d f g by (simp add: drawdown_examples(3))
qed

section \<open>The valuation rows\<close>

lemma trade_steps_config [simp]:
  "ohlcv_data (fst (cover_short s ts px)) = ohlcv_data s"
  "positions_df (fst (cover_short s ts px)) = positions_df s"
  "ohlcv_data (fst (close_long s ts px)) = ohlcv_data s"
  "positions_df (fst (close_long s ts px)) = positions_df s"
  "ohlcv_data (open_long s ts px c) = ohlcv_data s"
  "positions_df (open_long s ts px c) = positions_df s"
  "ohlcv_data (open_short s ts px c) = ohlcv_data s"
  "positions_df (open_short s ts px c) = positions_df s"
  "execution_price_type (fst (cover_short s ts px)) = execution_price_type s"
  "execution_price_type (fst (close_long s ts px)) = execution_price_type s"
  "execution_price_type (open_long s ts px c) = execution_price_type s"
  "execution_price_type (open_short s ts px c) = execution_price_type s"
  by (simp_all add: cover_short_def close_long_def open_long_def open_short_def Let_def)

lemma signal_config [simp]:
  "ohlcv_data (fst (buy_signal s ts px c)) = ohlcv_data s"
  "positions_df (fst (buy_signal s ts px c)) = positions_df s"
  "execution_price_type (fst (buy_signal s ts px c)) = execution_price_type s"
  "ohlcv_data (fst (sell_signal s ts px c)) = ohlcv_data s"
  "positions_df (fst (sell_signal s ts px c)) = positions_df s"
  "execution_price_type (fst (sell_signal s ts px c)) = execution_price_type s"
  by (simp_all add: buy_signal_eq sell_signal_eq)

lemma snapshot_config [simp]:
  "ohlcv_data (pre_trade s i c) = ohlcv_data s"
  "execution_price_type (pre_trade s i c) = execution_price_type s"
  "length (positions_df (pre_trade s i c)) = length (positions_df s)"
  "ohlcv_data (post_trade s i c p) = ohlcv_data s"
  "execution_price_type (post_trade s i c p) = execution_price_type s"
  "length (positions_df (post_trade s i c p)) = length (positions_df s)"
  by (simp_all add: pre_trade_def post_trade_def Let_def)

lemma process_bar_config [simp]:
  "ohlcv_data (process_bar s i ts sg c px) = ohlcv_data s"
  "execution_price_type (process_bar s i ts sg c px) = execution_price_type s"
  "length (positions_df (process_bar s i ts sg c px)) = length (positions_df s)"
  by (cases px; simp add: process_bar_Some process_bar_None)+

lemma snapshot_other_rows:
  "j \<noteq> i \<Longrightarrow> positions_df (pre_trade s i c) ! j = positions_df s ! j"
  "j \<noteq> i \<Longrightarrow> positions_df (post_trade s i c p) ! j = positions_df s ! j"
  by (simp_all add: pre_trade_def post_trade_def Let_def)

lemma process_bar_other_rows:
  "j \<noteq> i \<Longrightarrow> positions_df (process_bar s i ts sg c px) ! j = positions_df s ! j"
  by (cases px) (simp_all add: process_bar_Some process_bar_None snapshot_other_rows)

lemma post_trade_row:
  assumes "i < length (positions_df s)"
  shows "position_qty (positions_df (post_trade s i c p) ! i) = Some (current_position_qty s)"
    and "portfolio_value (positions_df (post_trade s i c p) ! i) =
           cash (positions_df (post_trade s i c p) ! i) + current_position_qty s * c"
  using assms by (simp_all add: post_trade_def Let_def)

lemma pre_trade_row:
  assumes "i < length (positions_df s)"
  shows "portfolio_value (positions_df (pre_trade s i c) ! i) =
           cash (positions_df (pre_trade s i c) ! i) + current_position_qty s * c"
    and "0 < i \<Longrightarrow>
         position_qty (positions_df (pre_trade s i c) ! i) = Some (current_position_qty s)"
  using assms by (simp_all add: pre_trade_def Let_def)

text \<open>
  A pass of the loop leaves row \<open>i\<close> with portfolio\_value equal to cash plus position
  quantity times close, the quantity being the one written into the row, unless it is
  the pass of bar 0 that ends in the \<open>continue\<close>.
\<close>

lemma process_bar_row:
  assumes "i < length (positions_df s)" and "0 < i \<or> px \<noteq> None"
  shows "\<exists>q. position_qty (positions_df (process_bar s i ts sg c px) ! i) = Some q
           \<and> portfolio_value (positions_df (process_bar s i ts sg c px) ! i) =
               cash (positions_df (process_bar s i ts sg c px) ! i) + q * c"
proof (cases px)
  case None
  with assms(2) have "0 < i" by simp
  with assms(1) show ?thesis
    by (simp add: None process_bar_None pre_trade_row)
next
  case (Some p)
  have l: "i < length (positions_df (pre_trade s i c))" using assms(1) by simp
  show ?thesis
    using l by (simp add: Some process_bar_Some post_trade_row)
qed

lemma run_bar_cases:
  assumes "run_bar s i = Inr s'"
  obtains ts sg c px where "series_item (ohlcv_data s) i ''close'' = Inr c"
    and "get_execution_price s i sg = Inr px"
    and "s' = process_bar s i ts sg c px"
  using assms by (auto simp: run_bar_def Let_def split: sum.splits)

lemma get_execution_price_None:
  "get_execution_price s i sg = Inr None \<Longrightarrow>
   execution_price_type s = ''next_open'' \<and> \<not> i + 1 < len (ohlcv_data s)"
  by (auto simp: get_execution_price_def Let_def split: if_splits sum.splits)

lemma run_bar_row:
  assumes r: "run_bar s i = Inr s'"
    and i: "i < length (positions_df s)"
    and m: "execution_price_type s \<noteq> ''next_open'' \<or> 2 \<le> len (ohlcv_data s)"
  shows "row_conserves (ohlcv_data s) (positions_df s') i"
proof -
  from r obtain ts sg c px where c: "series_item (ohlcv_data s) i ''close'' = Inr c"
    and g: "get_execution_price s i sg = Inr px"
    and s': "s' = process_bar s i ts sg c px"
    by (rule run_bar_cases)
  have "0 < i \<or> px \<noteq> None"
  proof (cases px)
    case None
    with g m get_execution_price_None [of s i sg] show ?thesis by auto
  next
    case (Some p)
    then show ?thesis by simp
  qed
  from process_bar_row [OF i this, of ts sg c] show ?thesis
    by (auto simp: row_conserves_def s' c)
qed

lemma run_bar_keeps:
  assumes r: "run_bar s i = Inr s'"
  shows "ohlcv_data s' = ohlcv_data s"
    and "execution_price_type s' = execution_price_type s"
    and "length (positions_df s') = length (positions_df s)"
    and "j \<noteq> i \<Longrightarrow> positions_df s' ! j = positions_df s ! j"
proof -
  from r obtain ts sg c px where s': "s' = process_bar s i ts sg c px"
    by (rule run_bar_cases)
  show "ohlcv_data s' = ohlcv_data s" "execution_price_type s' = execution_price_type s"
    "length (positions_df s') = length (positions_df s)"
    by (simp_all add: s')
  show "j \<noteq> i \<Longrightarrow> positions_df s' ! j = positions_df s ! j"
    by (simp add: s' process_bar_other_rows)
qed

lemma run_loop_rows:
  "run_loop s js = Inr s' \<Longrightarrow>
   execution_price_type s \<noteq> ''next_open'' \<or> 2 \<le> len (ohlcv_data s) \<Longrightarrow>
   (\<And>k. k \<in> set js \<Longrightarrow> k < length (positions_df s)) \<Longrightarrow>
   j \<in> set js \<or> row_conserves (ohlcv_data s) (positions_df s) j \<Longrightarrow>
   row_conserves (ohlcv_data s) (positions_df s') j"
proof (induction js arbitrary: s)
  case Nil
  then show ?case by simp
next
  case (Cons i js)
  from Cons.prems(1) obtain s1 where b: "run_bar s i = Inr s1" and l: "run_loop s1 js = Inr s'"
    by (auto split: sum.splits)
  note k = run_bar_keeps [OF b]
  have m1: "execution_price_type s1 \<noteq> ''next_open'' \<or> 2 \<le> len (ohlcv_data s1)"
    using Cons.prems(2) by (simp add: k)
  have r1: "\<And>k. k \<in> set js \<Longrightarrow> k < length (positions_df s1)"
    using Cons.prems(3) by (simp add: k)
  have "j \<in> set js \<or> row_conserves (ohlcv_data s1) (positions_df s1) j"
  proof (cases "j = i")
    case True
    have "row_conserves (ohlcv_data s) (positions_df s1) i"
      using b Cons.prems(2,3) by (intro run_bar_row) simp_all
    with True show ?thesis by (simp add: k)
  next
    case False
    with Cons.prems(4) have "j \<in> set js \<or> row_conserves (ohlcv_data s) (positions_df s) j"
      by auto
    moreover have eq: "positions_df s1 ! j = positions_df s ! j"
      using False by (rule k(4))
    have "row_conserves (ohlcv_data s1) (positions_df s1) j =
               row_conserves (ohlcv_data s) (positions_df s) j"
      unfolding row_conserves_def k(1) eq by (rule refl)
    ultimately show ?thesis by simp
  qed
  from Cons.IH [OF l m1 r1 this] show ?case by (simp add: k)
qed

text \<open>
  Every row of a run satisfies the property, when the series has two bars or more or the
  trades execute at the close: then no pass of bar 0 can end in the \<open>continue\<close>.
\<close>

lemma run_rows_conserve:
  assumes r: "run self = Inr (self', m)"
    and n: "length (positions_df self) = len (ohlcv_data self)"
    and e: "execution_price_type self \<noteq> ''next_open'' \<or> 2 \<le> len (ohlcv_data self)"
    and i: "i < len (ohlcv_data self)"
  shows "row_conserves (ohlcv_data self) (positions_df self') i"
proof -
  from r obtain sigs s1 where
    sg: "length sigs = len (ohlcv_data self)"
    and s1: "s1 = self\<lparr>positions_df :=
                    map (\<lambda>(row, s). row\<lparr>signal := s, cash := initial_capital self,
                                        holdings_value := 0,
                                        portfolio_value := initial_capital self\<rparr>)
                      (zip (positions_df self) sigs)\<rparr>"
    and l: "run_loop s1 [0..<len (ohlcv_data self)] = Inr self'"
    by (auto simp: run_def Let_def split: sum.splits if_splits)
  have c: "ohlcv_data s1 = ohlcv_data self" "execution_price_type s1 = execution_price_type self"
    "length (positions_df s1) = len (ohlcv_data self)"
    by (simp_all add: s1 n sg)
  have "row_conserves (ohlcv_data s1) (positions_df self') i"
    using l e i by (intro run_loop_rows [where js = "[0..<len (ohlcv_data self)]"]) (simp_all add: c)
  then show ?thesis by (simp add: c)
qed

text \<open>
  C1 at its failing input: a series of one bar under \<open>next_open\<close>. The only pass of the
  loop takes the \<open>continue\<close> of line 104 after the first snapshot; the carry-forward of
  line 95 is guarded by \<open>i > 0\<close>, and lines 82-84 give every row its cash, holdings and
  portfolio value but no position quantity. The row of the bar is left with an unset
  (NaN) position\_qty, so \<open>cash + position_qty * close\<close> is no number, while
  portfolio\_value is the initial capital: the row does not satisfy the property.
\<close>

theorem C1_one_bar_next_open_row:
  "(case Backtester_init one_bar (fixed_signals [''buy'']) 100000 2 1 1 ''next_open'' of
      Inl e \<Rightarrow> None
    | Inr bt \<Rightarrow>
        (case run bt of
           Inl e \<Rightarrow> None
         | Inr (bt', m) \<Rightarrow>
             Some (positions_df bt', row_conserves one_bar (positions_df bt') 0)))
   = Some ([\<lparr>signal = ''buy'', position_qty = None, entry_price = None, trade_pnl = None,
             cash = 100000, holdings_value = 0, portfolio_value = 100000\<rparr>], False)"
  by (simp add: run_eval one_bar_def row_conserves_def)

end
